theory Spec2Isabelle
  imports Main "HOL-Library.Sublist"
begin

section \<open>Glyphs and renderers\<close>

text \<open>
  \<^verbatim>\<open>bokeh/models/tools.py\<close> imports four glyph classes from \<^verbatim>\<open>.glyphs\<close>:
  \<^verbatim>\<open>XYGlyph\<close>, \<^verbatim>\<open>Rect\<close>, \<^verbatim>\<open>Patches\<close> and \<^verbatim>\<open>MultiLine\<close>. The edit tools look at
  a glyph in two ways only: \<^verbatim>\<open>isinstance(glyph, C)\<close> for one of these four classes, and
  \<^verbatim>\<open>type(glyph).__name__\<close>. The class hierarchy of \<^verbatim>\<open>.glyphs\<close> is not part of the
  file, so a glyph carries both readings as data: the name of its class, and which of
  the four imported classes its class derives from (itself included). The theorems
  about arbitrary tools hold for any hierarchy. A renderer whose \<^verbatim>\<open>glyph\<close> is \<^verbatim>\<open>None\<close>
  is covered too: its type name is \<^verbatim>\<open>NoneType\<close> and it derives from none of the four.
\<close>

datatype glyph_class = XYGlyph | Rect | Patches | MultiLine

record glyph =
  type_name :: string
  type_mro :: "glyph_class list"

definition isinstance :: "glyph \<Rightarrow> glyph_class \<Rightarrow> bool" where
  "isinstance g c = (c \<in> set (type_mro g))"

text \<open>
  Modelled from the spec: the class \<^verbatim>\<open>Renderer\<close> of \<^verbatim>\<open>.renderers\<close> is missing. The
  spec's data model lets a renderer own exactly one glyph and bind it to a data source
  (here a reference number).
\<close>

record renderer =
  data_source :: nat
  glyph :: glyph

text \<open>
  Modelled from the spec: concrete glyph kinds of the missing \<^verbatim>\<open>.glyphs\<close>, as the spec
  names them, for the examples: a \<^verbatim>\<open>Circle\<close> is a point-like glyph of the XYGlyph
  family; \<^verbatim>\<open>Patches\<close> and \<^verbatim>\<open>MultiLine\<close> are not in that family. A \<^verbatim>\<open>Rect\<close> is
  placed by its \<^verbatim>\<open>x\<close> and \<^verbatim>\<open>y\<close> and so counted in the family as well; no theorem below
  rests on that.
\<close>

definition Circle_glyph :: glyph where
  "Circle_glyph = \<lparr>type_name = ''Circle'', type_mro = [XYGlyph]\<rparr>"

definition Rect_glyph :: glyph where
  "Rect_glyph = \<lparr>type_name = ''Rect'', type_mro = [Rect, XYGlyph]\<rparr>"

definition Patches_glyph :: glyph where
  "Patches_glyph = \<lparr>type_name = ''Patches'', type_mro = [Patches]\<rparr>"

definition MultiLine_glyph :: glyph where
  "MultiLine_glyph = \<lparr>type_name = ''MultiLine'', type_mro = [MultiLine]\<rparr>"

section \<open>Tools\<close>

datatype dimensions = Width | Height | Both

text \<open>
  A value of \<^verbatim>\<open>Either(Bool, Int, Float, Date, Datetime, Color)\<close>; the last four are
  kept as text, no check reads them.
\<close>

datatype prop_value = BoolValue bool | IntValue int | TextValue string

record edit_tool =
  custom_tooltip :: "string option"
  empty_value :: "prop_value option"
  custom_icon :: "string option"
  renderers :: "renderer list"

record box_edit_tool = edit_tool +
  dimensions :: dimensions
  num_objects :: int

record point_draw_tool = edit_tool +
  add :: bool
  drag :: bool
  num_objects :: int

record poly_draw_tool = edit_tool +
  drag :: bool
  num_objects :: int
  vertex_renderer :: "renderer option"

record freehand_draw_tool = edit_tool +
  num_objects :: int

record poly_edit_tool = edit_tool +
  vertex_renderer :: "renderer option"

section \<open>Results of a check\<close>

datatype py_error = AttributeError

datatype error_code =
    INCOMPATIBLE_BOX_EDIT_RENDERER
  | INCOMPATIBLE_POINT_DRAW_RENDERER
  | INCOMPATIBLE_POLY_DRAW_RENDERER
  | INCOMPATIBLE_POLY_EDIT_RENDERER
  | INCOMPATIBLE_POLY_EDIT_VERTEX_RENDERER

record diagnostic =
  code :: error_code
  message :: string

text \<open>
  Modelled from the spec: the decorator \<^verbatim>\<open>error\<close> of \<^verbatim>\<open>..core.validation\<close> is missing.
  By the spec a check is a callable that returns zero or one diagnostics: none when the
  method returns \<^verbatim>\<open>None\<close>, otherwise one diagnostic under the decorator's code carrying
  the returned message. An exception of the method passes through.
\<close>

definition error :: "error_code \<Rightarrow> py_error + string option \<Rightarrow> py_error + diagnostic list" where
  "error c res =
     (case res of
        Inl e \<Rightarrow> Inl e
      | Inr None \<Rightarrow> Inr []
      | Inr (Some extra) \<Rightarrow> Inr [\<lparr>code = c, message = extra\<rparr>])"

section \<open>The checks\<close>

text \<open>Python's \<^verbatim>\<open>sep.join(xs)\<close>.\<close>

fun join :: "string \<Rightarrow> string list \<Rightarrow> string" where
  "join sep [] = []"
| "join sep [x] = x"
| "join sep (x # y # ys) = x @ sep @ join sep (y # ys)"

text \<open>
  The loop shared by the five \<^verbatim>\<open>_check_compatible_renderers\<close> methods, with the
  \<^verbatim>\<open>isinstance\<close> test of each as a parameter:
  \<^verbatim>\<open>
  for renderer in self.renderers:
      if not isinstance(renderer.glyph, ...):
          incompatible_renderers.append(renderer)
  \<close>
\<close>

fun collect_incompatible ::
  "(glyph \<Rightarrow> bool) \<Rightarrow> renderer list \<Rightarrow> renderer list \<Rightarrow> renderer list" where
  "collect_incompatible ok [] incompatible_renderers = incompatible_renderers"
| "collect_incompatible ok (r # rs) incompatible_renderers =
     collect_incompatible ok rs
       (if \<not> ok (glyph r) then incompatible_renderers @ [r] else incompatible_renderers)"

text \<open>
  The tail shared by the five methods:
  \<^verbatim>\<open>
  if incompatible_renderers:
      glyph_types = ', '.join(type(renderer.glyph).__name__ for renderer in incompatible_renderers)
      return "%s glyph type(s) found." % glyph_types
  \<close>
  and \<^verbatim>\<open>None\<close> when the function falls off its end.
\<close>

definition report_incompatible :: "renderer list \<Rightarrow> py_error + string option" where
  "report_incompatible incompatible_renderers =
     (if incompatible_renderers \<noteq> [] then
        let glyph_types = join '', '' (map (\<lambda>renderer. type_name (glyph renderer)) incompatible_renderers)
        in Inr (Some (glyph_types @ '' glyph type(s) found.''))
      else Inr None)"

definition BoxEditTool_check_compatible_renderers ::
  "box_edit_tool \<Rightarrow> py_error + diagnostic list" where
  "BoxEditTool_check_compatible_renderers self =
     error INCOMPATIBLE_BOX_EDIT_RENDERER
       (report_incompatible
          (collect_incompatible (\<lambda>g. isinstance g Rect) (renderers self) []))"

definition PointDrawTool_check_compatible_renderers ::
  "point_draw_tool \<Rightarrow> py_error + diagnostic list" where
  "PointDrawTool_check_compatible_renderers self =
     error INCOMPATIBLE_POINT_DRAW_RENDERER
       (report_incompatible
          (collect_incompatible (\<lambda>g. isinstance g XYGlyph) (renderers self) []))"

definition PolyDrawTool_check_compatible_renderers ::
  "poly_draw_tool \<Rightarrow> py_error + diagnostic list" where
  "PolyDrawTool_check_compatible_renderers self =
     error INCOMPATIBLE_POLY_DRAW_RENDERER
       (report_incompatible
          (collect_incompatible (\<lambda>g. isinstance g MultiLine \<or> isinstance g Patches)
             (renderers self) []))"

definition PolyDrawTool_check_compatible_vertex_renderer ::
  "poly_draw_tool \<Rightarrow> py_error + diagnostic list" where
  "PolyDrawTool_check_compatible_vertex_renderer self =
     error INCOMPATIBLE_POLY_EDIT_VERTEX_RENDERER
       (case poly_draw_tool.vertex_renderer self of
          None \<Rightarrow> Inr None
        | Some vr \<Rightarrow>
            let g = glyph vr
            in if \<not> isinstance g XYGlyph
               then Inr (Some (''glyph type '' @ type_name g @ '' found.''))
               else Inr None)"

definition FreehandDrawTool_check_compatible_renderers ::
  "freehand_draw_tool \<Rightarrow> py_error + diagnostic list" where
  "FreehandDrawTool_check_compatible_renderers self =
     error INCOMPATIBLE_POLY_DRAW_RENDERER
       (report_incompatible
          (collect_incompatible (\<lambda>g. isinstance g MultiLine \<or> isinstance g Patches)
             (renderers self) []))"

text \<open>
  \<^verbatim>\<open>PolyEditTool._check_compatible_vertex_renderer\<close> reads
  \<^verbatim>\<open>self.vertex_renderer.glyph\<close> with no test for \<^verbatim>\<open>None\<close>: on \<^verbatim>\<open>None\<close> the attribute
  access raises \<^verbatim>\<open>AttributeError\<close>.
\<close>

definition PolyEditTool_check_compatible_vertex_renderer ::
  "poly_edit_tool \<Rightarrow> py_error + diagnostic list" where
  "PolyEditTool_check_compatible_vertex_renderer self =
     error INCOMPATIBLE_POLY_EDIT_VERTEX_RENDERER
       (case poly_edit_tool.vertex_renderer self of
          None \<Rightarrow> Inl AttributeError
        | Some vr \<Rightarrow>
            let g = glyph vr
            in if \<not> isinstance g XYGlyph
               then Inr (Some (''glyph type '' @ type_name g @ '' found.''))
               else Inr None)"

definition PolyEditTool_check_compatible_renderers ::
  "poly_edit_tool \<Rightarrow> py_error + diagnostic list" where
  "PolyEditTool_check_compatible_renderers self =
     error INCOMPATIBLE_POLY_EDIT_RENDERER
       (report_incompatible
          (collect_incompatible (\<lambda>g. isinstance g MultiLine \<or> isinstance g Patches)
             (renderers self) []))"

section \<open>Tools as their constructors build them\<close>

text \<open>
  The defaults of the property declarations: \<^verbatim>\<open>String(None)\<close>, \<^verbatim>\<open>Either(...)\<close>,
  \<^verbatim>\<open>Image()\<close> and \<^verbatim>\<open>Instance(...)\<close> start as \<^verbatim>\<open>None\<close>, \<^verbatim>\<open>List(...)\<close> as the empty
  list, the others as declared (\<^verbatim>\<open>default="both"\<close>, \<^verbatim>\<open>default=0\<close>, \<^verbatim>\<open>default=True\<close>).
\<close>

definition BoxEditTool_default :: box_edit_tool where
  "BoxEditTool_default =
     \<lparr>custom_tooltip = None, empty_value = None, custom_icon = None, renderers = [],
      dimensions = Both, box_edit_tool.num_objects = 0\<rparr>"

definition PointDrawTool_default :: point_draw_tool where
  "PointDrawTool_default =
     \<lparr>custom_tooltip = None, empty_value = None, custom_icon = None, renderers = [],
      add = True, point_draw_tool.drag = True, point_draw_tool.num_objects = 0\<rparr>"

definition PolyDrawTool_default :: poly_draw_tool where
  "PolyDrawTool_default =
     \<lparr>custom_tooltip = None, empty_value = None, custom_icon = None, renderers = [],
      poly_draw_tool.drag = True, poly_draw_tool.num_objects = 0,
      poly_draw_tool.vertex_renderer = None\<rparr>"

definition FreehandDrawTool_default :: freehand_draw_tool where
  "FreehandDrawTool_default =
     \<lparr>custom_tooltip = None, empty_value = None, custom_icon = None, renderers = [],
      freehand_draw_tool.num_objects = 0\<rparr>"

definition PolyEditTool_default :: poly_edit_tool where
  "PolyEditTool_default =
     \<lparr>custom_tooltip = None, empty_value = None, custom_icon = None, renderers = [],
      poly_edit_tool.vertex_renderer = None\<rparr>"

section \<open>What the specification says of the message\<close>

text \<open>
  The specification's reading of the message: the type names of the renderers whose
  glyph is not allowed, in the order of the input, repetitions kept.
\<close>

definition offenders :: "(glyph \<Rightarrow> bool) \<Rightarrow> renderer list \<Rightarrow> string list" where
  "offenders allowed rs =
     map (\<lambda>r. type_name (glyph r)) (filter (\<lambda>r. \<not> allowed (glyph r)) rs)"

section \<open>The checks as programs on a store of objects\<close>

text \<open>
  To see what a check does to the objects it is given, the methods are written once
  more as programs on a store. The store holds the tools, the list objects and the
  renderers, each kind under its own addresses, as the property declarations type every
  reference (\<^verbatim>\<open>List(Instance(Renderer))\<close>, \<^verbatim>\<open>Instance(GlyphRenderer)\<close>). A tool holds
  the address of the list object behind \<^verbatim>\<open>renderers\<close> and, where it has the field, the
  address of its \<^verbatim>\<open>vertex_renderer\<close> or \<^verbatim>\<open>None\<close>; a list object holds addresses of
  renderers. Every other attribute of a tool is kept by name; no check reads one.
\<close>

record tool_obj =
  renderers_ref :: nat
  vertex_renderer_ref :: "nat option"
  other_attributes :: "(string \<times> prop_value) list"

record store =
  tool_objs :: "tool_obj list"
  list_objs :: "nat list list"
  renderer_objs :: "renderer list"

text \<open>
  Reading an object. \<^verbatim>\<open>None\<close> stands for an address outside the store: a program that
  meets one has no result.
\<close>

definition get_tool :: "store \<Rightarrow> nat \<Rightarrow> tool_obj option" where
  "get_tool s a = (if a < length (tool_objs s) then Some (tool_objs s ! a) else None)"

definition get_list :: "store \<Rightarrow> nat \<Rightarrow> nat list option" where
  "get_list s a = (if a < length (list_objs s) then Some (list_objs s ! a) else None)"

definition get_renderer :: "store \<Rightarrow> nat \<Rightarrow> renderer option" where
  "get_renderer s a = (if a < length (renderer_objs s) then Some (renderer_objs s ! a) else None)"

text \<open>The expression \<^verbatim>\<open>[]\<close>: a new, empty list object; its address and the new store.\<close>

definition new_list :: "store \<Rightarrow> nat \<times> store" where
  "new_list s = (length (list_objs s), s\<lparr>list_objs := list_objs s @ [[]]\<rparr>)"

text \<open>\<^verbatim>\<open>xs.append(r)\<close>: the list object at \<open>a\<close> changes in place.\<close>

definition list_append :: "nat \<Rightarrow> nat \<Rightarrow> store \<Rightarrow> store option" where
  "list_append a r s =
     (case get_list s a of
        None \<Rightarrow> None
      | Some xs \<Rightarrow> Some (s\<lparr>list_objs := (list_objs s)[a := xs @ [r]]\<rparr>))"

text \<open>
  The loop
  \<^verbatim>\<open>
  for renderer in self.renderers:
      if not isinstance(renderer.glyph, ...):
          incompatible_renderers.append(renderer)
  \<close>
  as Python runs it: the iterator keeps the list object \<open>src\<close> and an index \<open>i\<close>, and
  reads the list object anew at every step, so a body that appended to \<open>src\<close> would be
  seen by the loop (and the loop might not end).
\<close>

partial_function (option) for_renderers ::
  "(glyph \<Rightarrow> bool) \<Rightarrow> nat \<Rightarrow> nat \<Rightarrow> nat \<Rightarrow> store \<Rightarrow> store option" where
  "for_renderers ok src incompatible_renderers i s =
     (case get_list s src of
        None \<Rightarrow> None
      | Some xs \<Rightarrow>
          if i < length xs then
            (case get_renderer s (xs ! i) of
               None \<Rightarrow> None
             | Some renderer \<Rightarrow>
                 if \<not> ok (glyph renderer) then
                   (case list_append incompatible_renderers (xs ! i) s of
                      None \<Rightarrow> None
                    | Some s' \<Rightarrow> for_renderers ok src incompatible_renderers (i + 1) s')
                 else for_renderers ok src incompatible_renderers (i + 1) s)
          else Some s)"

text \<open>Reading the renderers a list of addresses points to, as the generator expression does.\<close>

fun read_renderers :: "store \<Rightarrow> nat list \<Rightarrow> renderer list option" where
  "read_renderers s [] = Some []"
| "read_renderers s (a # as) =
     (case get_renderer s a of
        None \<Rightarrow> None
      | Some r \<Rightarrow> map_option ((#) r) (read_renderers s as))"

text \<open>
  The body shared by the five \<^verbatim>\<open>_check_compatible_renderers\<close> methods, statement by
  statement: the new list, the loop over \<^verbatim>\<open>self.renderers\<close>, the test of the list and
  the message.
\<close>

definition check_renderers_run ::
  "(glyph \<Rightarrow> bool) \<Rightarrow> nat \<Rightarrow> store \<Rightarrow> ((py_error + string option) \<times> store) option" where
  "check_renderers_run ok self s =
     (case new_list s of
        (incompatible_renderers, s1) \<Rightarrow>
          (case get_tool s1 self of
             None \<Rightarrow> None
           | Some tool \<Rightarrow>
               (case for_renderers ok (renderers_ref tool) incompatible_renderers 0 s1 of
                  None \<Rightarrow> None
                | Some s2 \<Rightarrow>
                    (case get_list s2 incompatible_renderers of
                       None \<Rightarrow> None
                     | Some found \<Rightarrow>
                         (case read_renderers s2 found of
                            None \<Rightarrow> None
                          | Some rs \<Rightarrow> Some (report_incompatible rs, s2))))))"

text \<open>The decorator \<^verbatim>\<open>error\<close> on a run: it wraps the result and leaves the store alone.\<close>

definition error_run ::
  "error_code \<Rightarrow> ((py_error + string option) \<times> store) option \<Rightarrow>
   ((py_error + diagnostic list) \<times> store) option" where
  "error_run c run = map_option (\<lambda>(res, s). (error c res, s)) run"

definition BoxEditTool_check_compatible_renderers_run ::
  "nat \<Rightarrow> store \<Rightarrow> ((py_error + diagnostic list) \<times> store) option" where
  "BoxEditTool_check_compatible_renderers_run self s =
     error_run INCOMPATIBLE_BOX_EDIT_RENDERER
       (check_renderers_run (\<lambda>g. isinstance g Rect) self s)"

definition PointDrawTool_check_compatible_renderers_run ::
  "nat \<Rightarrow> store \<Rightarrow> ((py_error + diagnostic list) \<times> store) option" where
  "PointDrawTool_check_compatible_renderers_run self s =
     error_run INCOMPATIBLE_POINT_DRAW_RENDERER
       (check_renderers_run (\<lambda>g. isinstance g XYGlyph) self s)"

definition PolyDrawTool_check_compatible_renderers_run ::
  "nat \<Rightarrow> store \<Rightarrow> ((py_error + diagnostic list) \<times> store) option" where
  "PolyDrawTool_check_compatible_renderers_run self s =
     error_run INCOMPATIBLE_POLY_DRAW_RENDERER
       (check_renderers_run (\<lambda>g. isinstance g MultiLine \<or> isinstance g Patches) self s)"

definition PolyDrawTool_check_compatible_vertex_renderer_run ::
  "nat \<Rightarrow> store \<Rightarrow> ((py_error + diagnostic list) \<times> store) option" where
  "PolyDrawTool_check_compatible_vertex_renderer_run self s =
     error_run INCOMPATIBLE_POLY_EDIT_VERTEX_RENDERER
       (case get_tool s self of
          None \<Rightarrow> None
        | Some tool \<Rightarrow>
            (case vertex_renderer_ref tool of
               None \<Rightarrow> Some (Inr None, s)
             | Some a \<Rightarrow>
                 (case get_renderer s a of
                    None \<Rightarrow> None
                  | Some vr \<Rightarrow>
                      let g = glyph vr
                      in if \<not> isinstance g XYGlyph
                         then Some (Inr (Some (''glyph type '' @ type_name g @ '' found.'')), s)
                         else Some (Inr None, s))))"

definition FreehandDrawTool_check_compatible_renderers_run ::
  "nat \<Rightarrow> store \<Rightarrow> ((py_error + diagnostic list) \<times> store) option" where
  "FreehandDrawTool_check_compatible_renderers_run self s =
     error_run INCOMPATIBLE_POLY_DRAW_RENDERER
       (check_renderers_run (\<lambda>g. isinstance g MultiLine \<or> isinstance g Patches) self s)"

definition PolyEditTool_check_compatible_vertex_renderer_run ::
  "nat \<Rightarrow> store \<Rightarrow> ((py_error + diagnostic list) \<times> store) option" where
  "PolyEditTool_check_compatible_vertex_renderer_run self s =
     error_run INCOMPATIBLE_POLY_EDIT_VERTEX_RENDERER
       (case get_tool s self of
          None \<Rightarrow> None
        | Some tool \<Rightarrow>
            (case vertex_renderer_ref tool of
               None \<Rightarrow> Some (Inl AttributeError, s)
             | Some a \<Rightarrow>
                 (case get_renderer s a of
                    None \<Rightarrow> None
                  | Some vr \<Rightarrow>
                      let g = glyph vr
                      in if \<not> isinstance g XYGlyph
                         then Some (Inr (Some (''glyph type '' @ type_name g @ '' found.'')), s)
                         else Some (Inr None, s))))"

definition PolyEditTool_check_compatible_renderers_run ::
  "nat \<Rightarrow> store \<Rightarrow> ((py_error + diagnostic list) \<times> store) option" where
  "PolyEditTool_check_compatible_renderers_run self s =
     error_run INCOMPATIBLE_POLY_EDIT_RENDERER
       (check_renderers_run (\<lambda>g. isinstance g MultiLine \<or> isinstance g Patches) self s)"

text \<open>
  Calling a check twice on the same tool, the second call on the store the first call
  left: both results, and the store after the second call.
\<close>

definition twice ::
  "(nat \<Rightarrow> store \<Rightarrow> ('r \<times> store) option) \<Rightarrow> nat \<Rightarrow> store \<Rightarrow> ('r \<times> 'r \<times> store) option" where
  "twice check self s =
     (case check self s of
        None \<Rightarrow> None
      | Some (r1, s1) \<Rightarrow>
          (case check self s1 of
             None \<Rightarrow> None
           | Some (r2, s2) \<Rightarrow> Some (r1, r2, s2)))"

text \<open>
  Every object of \<open>s\<close> is in \<open>s'\<close>, at its address and as it was; \<open>s'\<close> may hold new list
  objects beyond them.
\<close>

definition same_objects :: "store \<Rightarrow> store \<Rightarrow> bool" where
  "same_objects s s' =
     (tool_objs s' = tool_objs s \<and> renderer_objs s' = renderer_objs s \<and>
      take (length (list_objs s)) (list_objs s') = list_objs s)"

text \<open>
  The address \<open>self\<close> holds a tool whose references all point into the store, as every
  reference of a Python heap does.
\<close>

definition tool_in_store :: "store \<Rightarrow> nat \<Rightarrow> bool" where
  "tool_in_store s self =
     (case get_tool s self of
        None \<Rightarrow> False
      | Some tool \<Rightarrow>
          (case get_list s (renderers_ref tool) of
             None \<Rightarrow> False
           | Some xs \<Rightarrow> list_all (\<lambda>a. a < length (renderer_objs s)) xs) \<and>
          (case vertex_renderer_ref tool of
             None \<Rightarrow> True
           | Some a \<Rightarrow> a < length (renderer_objs s)))"

text \<open>The renderers of the tool at \<open>self\<close>, read off the store.\<close>

definition renderers_in_store :: "store \<Rightarrow> nat \<Rightarrow> renderer list" where
  "renderers_in_store s self =
     map (\<lambda>a. renderer_objs s ! a) (list_objs s ! renderers_ref (tool_objs s ! self))"

text \<open>The vertex renderer of the tool at \<open>self\<close>, read off the store.\<close>

definition vertex_renderer_in_store :: "store \<Rightarrow> nat \<Rightarrow> renderer option" where
  "vertex_renderer_in_store s self =
     map_option (\<lambda>a. renderer_objs s ! a) (vertex_renderer_ref (tool_objs s ! self))"

text \<open>
  A store with two tools. The first has three renderers, two of them the same object,
  and a vertex renderer; the second has no renderer and no vertex renderer.
\<close>

definition example_store :: store where
  "example_store =
     \<lparr>tool_objs = [\<lparr>renderers_ref = 0, vertex_renderer_ref = Some 1,
                     other_attributes = [(''num_objects'', IntValue 0)]\<rparr>,
                   \<lparr>renderers_ref = 1, vertex_renderer_ref = None, other_attributes = []\<rparr>],
      list_objs = [[0, 1, 0], []],
      renderer_objs = [\<lparr>data_source = 0, glyph = Circle_glyph\<rparr>,
                       \<lparr>data_source = 1, glyph = Patches_glyph\<rparr>]\<rparr>"

section \<open>The loop collects the offending renderers in order\<close>

lemma collect_incompatible_filter:
  "collect_incompatible ok rs acc = acc @ filter (\<lambda>r. \<not> ok (glyph r)) rs"
  by (induction rs arbitrary: acc) simp_all

lemma collect_all_compatible:
  "list_all (\<lambda>r. ok (glyph r)) rs \<Longrightarrow> collect_incompatible ok rs [] = []"
  by (simp add: collect_incompatible_filter list_all_iff)

lemma collect_some_incompatible:
  "\<not> list_all (\<lambda>r. ok (glyph r)) rs \<Longrightarrow> collect_incompatible ok rs [] \<noteq> []"
  by (simp add: collect_incompatible_filter list_all_iff filter_empty_conv)

lemma error_None: "error c (Inr None) = Inr []"
  by (simp add: error_def)

lemma error_Some: "error c (Inr (Some m)) = Inr [\<lparr>code = c, message = m\<rparr>]"
  by (simp add: error_def)

lemma error_raise: "error c (Inl e) = Inl e"
  by (simp add: error_def)

lemma report_incompatible_Nil: "report_incompatible [] = Inr None"
  by (simp add: report_incompatible_def)

lemma report_incompatible_nonempty:
  "rs \<noteq> [] \<Longrightarrow>
   report_incompatible rs =
     Inr (Some (join '', '' (map (\<lambda>r. type_name (glyph r)) rs) @ '' glyph type(s) found.''))"
  by (simp add: report_incompatible_def)

lemma check_all_compatible:
  assumes "list_all (\<lambda>r. ok (glyph r)) rs"
  shows "error c (report_incompatible (collect_incompatible ok rs [])) = Inr []"
proof -
  from assms have "collect_incompatible ok rs [] = []"
    by (rule collect_all_compatible)
  then show ?thesis
    by (simp add: report_incompatible_Nil error_None)
qed

lemma check_some_incompatible:
  assumes "\<not> list_all (\<lambda>r. ok (glyph r)) rs"
  shows "error c (report_incompatible (collect_incompatible ok rs [])) =
     Inr [\<lparr>code = c, message = join '', '' (offenders ok rs) @ '' glyph type(s) found.''\<rparr>]"
proof -
  from assms have "collect_incompatible ok rs [] \<noteq> []"
    by (rule collect_some_incompatible)
  then show ?thesis
    by (simp add: report_incompatible_nonempty error_Some offenders_def
        collect_incompatible_filter)
qed

lemmas renderer_checks =
  BoxEditTool_check_compatible_renderers_def PointDrawTool_check_compatible_renderers_def
  PolyDrawTool_check_compatible_renderers_def FreehandDrawTool_check_compatible_renderers_def
  PolyEditTool_check_compatible_renderers_def

lemmas glyph_defs =
  Circle_glyph_def Rect_glyph_def Patches_glyph_def MultiLine_glyph_def isinstance_def

lemmas tool_defaults =
  BoxEditTool_default_def PointDrawTool_default_def PolyDrawTool_default_def
  FreehandDrawTool_default_def PolyEditTool_default_def

lemma poly_allowed_commute:
  "(\<lambda>r. isinstance (glyph r) Patches \<or> isinstance (glyph r) MultiLine) =
   (\<lambda>r. isinstance (glyph r) MultiLine \<or> isinstance (glyph r) Patches)"
  by (rule ext) blast

section \<open>Renderers with allowed glyphs\<close>

text \<open>
  Claim C1. For each of the five edit tools: when every renderer of \<^verbatim>\<open>renderers\<close>
  carries a glyph of the tool's allowed classes (\<^verbatim>\<open>Rect\<close> for the box-edit tool,
  \<^verbatim>\<open>XYGlyph\<close> for the point-draw tool, \<^verbatim>\<open>Patches\<close> or \<^verbatim>\<open>MultiLine\<close> for the poly-draw,
  freehand-draw and poly-edit tools), \<^verbatim>\<open>_check_compatible_renderers\<close> returns no
  diagnostic.
\<close>

theorem compatible_renderers_no_diagnostic:
  "(list_all (\<lambda>r. isinstance (glyph r) Rect) (renderers b) \<longrightarrow>
      BoxEditTool_check_compatible_renderers b = Inr []) \<and>
   (list_all (\<lambda>r. isinstance (glyph r) XYGlyph) (renderers p) \<longrightarrow>
      PointDrawTool_check_compatible_renderers p = Inr []) \<and>
   (list_all (\<lambda>r. isinstance (glyph r) Patches \<or> isinstance (glyph r) MultiLine) (renderers d) \<longrightarrow>
      PolyDrawTool_check_compatible_renderers d = Inr []) \<and>
   (list_all (\<lambda>r. isinstance (glyph r) Patches \<or> isinstance (glyph r) MultiLine) (renderers f) \<longrightarrow>
      FreehandDrawTool_check_compatible_renderers f = Inr []) \<and>
   (list_all (\<lambda>r. isinstance (glyph r) Patches \<or> isinstance (glyph r) MultiLine) (renderers e) \<longrightarrow>
      PolyEditTool_check_compatible_renderers e = Inr [])"
  unfolding renderer_checks poly_allowed_commute
  by (intro conjI impI check_all_compatible)

theorem compatible_renderers_no_diagnostic_witness:
  "list_all (\<lambda>r. isinstance (glyph r) Rect)
     (renderers (BoxEditTool_default\<lparr>renderers := [\<lparr>data_source = 0, glyph = Rect_glyph\<rparr>]\<rparr>)) \<and>
   BoxEditTool_check_compatible_renderers
     (BoxEditTool_default\<lparr>renderers := [\<lparr>data_source = 0, glyph = Rect_glyph\<rparr>]\<rparr>) = Inr [] \<and>
   list_all (\<lambda>r. isinstance (glyph r) XYGlyph)
     (renderers (PointDrawTool_default\<lparr>renderers := [\<lparr>data_source = 0, glyph = Circle_glyph\<rparr>]\<rparr>)) \<and>
   PointDrawTool_check_compatible_renderers
     (PointDrawTool_default\<lparr>renderers := [\<lparr>data_source = 0, glyph = Circle_glyph\<rparr>]\<rparr>) = Inr [] \<and>
   list_all (\<lambda>r. isinstance (glyph r) Patches \<or> isinstance (glyph r) MultiLine)
     (renderers (PolyDrawTool_default\<lparr>renderers :=
        [\<lparr>data_source = 0, glyph = Patches_glyph\<rparr>, \<lparr>data_source = 1, glyph = MultiLine_glyph\<rparr>]\<rparr>)) \<and>
   PolyDrawTool_check_compatible_renderers
     (PolyDrawTool_default\<lparr>renderers :=
        [\<lparr>data_source = 0, glyph = Patches_glyph\<rparr>, \<lparr>data_source = 1, glyph = MultiLine_glyph\<rparr>]\<rparr>) = Inr [] \<and>
   list_all (\<lambda>r. isinstance (glyph r) Patches \<or> isinstance (glyph r) MultiLine)
     (renderers (FreehandDrawTool_default\<lparr>renderers := [\<lparr>data_source = 0, glyph = MultiLine_glyph\<rparr>]\<rparr>)) \<and>
   FreehandDrawTool_check_compatible_renderers
     (FreehandDrawTool_default\<lparr>renderers := [\<lparr>data_source = 0, glyph = MultiLine_glyph\<rparr>]\<rparr>) = Inr [] \<and>
   list_all (\<lambda>r. isinstance (glyph r) Patches \<or> isinstance (glyph r) MultiLine)
     (renderers (PolyEditTool_default\<lparr>renderers := [\<lparr>data_source = 0, glyph = Patches_glyph\<rparr>]\<rparr>)) \<and>
   PolyEditTool_check_compatible_renderers
     (PolyEditTool_default\<lparr>renderers := [\<lparr>data_source = 0, glyph = Patches_glyph\<rparr>]\<rparr>) = Inr []"
proof -
  let ?b = "BoxEditTool_default\<lparr>renderers := [\<lparr>data_source = 0, glyph = Rect_glyph\<rparr>]\<rparr>"
  let ?p = "PointDrawTool_default\<lparr>renderers := [\<lparr>data_source = 0, glyph = Circle_glyph\<rparr>]\<rparr>"
  let ?d = "PolyDrawTool_default\<lparr>renderers :=
        [\<lparr>data_source = 0, glyph = Patches_glyph\<rparr>, \<lparr>data_source = 1, glyph = MultiLine_glyph\<rparr>]\<rparr>"
  let ?f = "FreehandDrawTool_default\<lparr>renderers := [\<lparr>data_source = 0, glyph = MultiLine_glyph\<rparr>]\<rparr>"
  let ?e = "PolyEditTool_default\<lparr>renderers := [\<lparr>data_source = 0, glyph = Patches_glyph\<rparr>]\<rparr>"
  have hb: "list_all (\<lambda>r. isinstance (glyph r) Rect) (renderers ?b)"
    by (simp add: glyph_defs)
  have hp: "list_all (\<lambda>r. isinstance (glyph r) XYGlyph) (renderers ?p)"
    by (simp add: glyph_defs)
  have hd: "list_all (\<lambda>r. isinstance (glyph r) Patches \<or> isinstance (glyph r) MultiLine) (renderers ?d)"
    by (simp add: glyph_defs)
  have hf: "list_all (\<lambda>r. isinstance (glyph r) Patches \<or> isinstance (glyph r) MultiLine) (renderers ?f)"
    by (simp add: glyph_defs)
  have he: "list_all (\<lambda>r. isinstance (glyph r) Patches \<or> isinstance (glyph r) MultiLine) (renderers ?e)"
    by (simp add: glyph_defs)
  from hb hp hd hf he compatible_renderers_no_diagnostic [of ?b ?p ?d ?f ?e]
  show ?thesis by blast
qed

section \<open>A single renderer with a glyph that is not a \<^verbatim>\<open>Rect\<close>\<close>

text \<open>
  Claim C2. A box-edit tool whose \<^verbatim>\<open>renderers\<close> holds exactly one renderer, with a
  glyph that is not a \<^verbatim>\<open>Rect\<close>, gets a diagnostic from
  \<^verbatim>\<open>_check_compatible_renderers\<close>, and the message of the diagnostic contains the name
  of the glyph's type: it is that name followed by \<^verbatim>\<open> glyph type(s) found.\<close>
\<close>

theorem box_edit_single_non_rect:
  assumes "renderers b = [r]" and "\<not> isinstance (glyph r) Rect"
  shows "\<exists>d. BoxEditTool_check_compatible_renderers b = Inr [d] \<and>
             code d = INCOMPATIBLE_BOX_EDIT_RENDERER \<and>
             message d = type_name (glyph r) @ '' glyph type(s) found.'' \<and>
             sublist (type_name (glyph r)) (message d)"
proof -
  from assms have "collect_incompatible (\<lambda>g. isinstance g Rect) (renderers b) [] = [r]"
    by simp
  then have "BoxEditTool_check_compatible_renderers b =
      Inr [\<lparr>code = INCOMPATIBLE_BOX_EDIT_RENDERER,
            message = type_name (glyph r) @ '' glyph type(s) found.''\<rparr>]"
    by (simp add: BoxEditTool_check_compatible_renderers_def report_incompatible_def error_Some)
  then show ?thesis by simp
qed

theorem box_edit_single_non_rect_witness:
  "renderers (BoxEditTool_default\<lparr>renderers := [\<lparr>data_source = 0, glyph = Circle_glyph\<rparr>]\<rparr>)
     = [\<lparr>data_source = 0, glyph = Circle_glyph\<rparr>] \<and>
   \<not> isinstance (glyph \<lparr>data_source = 0, glyph = Circle_glyph\<rparr>) Rect \<and>
   (\<exists>d. BoxEditTool_check_compatible_renderers
          (BoxEditTool_default\<lparr>renderers := [\<lparr>data_source = 0, glyph = Circle_glyph\<rparr>]\<rparr>) = Inr [d] \<and>
        code d = INCOMPATIBLE_BOX_EDIT_RENDERER \<and>
        message d = ''Circle glyph type(s) found.'' \<and>
        sublist ''Circle'' (message d))"
proof -
  let ?r = "\<lparr>data_source = 0, glyph = Circle_glyph\<rparr>"
  let ?b = "BoxEditTool_default\<lparr>renderers := [?r]\<rparr>"
  have h1: "renderers ?b = [?r]" by simp
  have h2: "\<not> isinstance (glyph ?r) Rect" by (simp add: glyph_defs)
  have n: "type_name (glyph ?r) = ''Circle''" by (simp add: Circle_glyph_def)
  from box_edit_single_non_rect [OF h1 h2] have
    "\<exists>d. BoxEditTool_check_compatible_renderers ?b = Inr [d] \<and>
         code d = INCOMPATIBLE_BOX_EDIT_RENDERER \<and>
         message d = type_name (glyph ?r) @ '' glyph type(s) found.'' \<and>
         sublist (type_name (glyph ?r)) (message d)" .
  then have "\<exists>d. BoxEditTool_check_compatible_renderers ?b = Inr [d] \<and>
         code d = INCOMPATIBLE_BOX_EDIT_RENDERER \<and>
         message d = ''Circle glyph type(s) found.'' \<and>
         sublist ''Circle'' (message d)"
    unfolding n by simp
  with h1 h2 show ?thesis by blast
qed

section \<open>One offender between two allowed glyphs\<close>

text \<open>
  Claim C3. For a poly-draw tool whose \<^verbatim>\<open>renderers\<close> are a \<^verbatim>\<open>Patches\<close> renderer, a
  \<^verbatim>\<open>Circle\<close> renderer and a \<^verbatim>\<open>MultiLine\<close> renderer, in this order,
  \<^verbatim>\<open>_check_compatible_renderers\<close> returns exactly one diagnostic; its message names
  \<^verbatim>\<open>Circle\<close> and names neither \<^verbatim>\<open>Patches\<close> nor \<^verbatim>\<open>MultiLine\<close>.
\<close>

theorem poly_draw_patches_circle_multiline:
  "PolyDrawTool_check_compatible_renderers
     (t\<lparr>renderers := [\<lparr>data_source = s1, glyph = Patches_glyph\<rparr>,
                      \<lparr>data_source = s2, glyph = Circle_glyph\<rparr>,
                      \<lparr>data_source = s3, glyph = MultiLine_glyph\<rparr>]\<rparr>)
     = Inr [\<lparr>code = INCOMPATIBLE_POLY_DRAW_RENDERER, message = ''Circle glyph type(s) found.''\<rparr>] \<and>
   sublist ''Circle'' ''Circle glyph type(s) found.'' \<and>
   \<not> sublist ''Patches'' ''Circle glyph type(s) found.'' \<and>
   \<not> sublist ''MultiLine'' ''Circle glyph type(s) found.''"
proof -
  have "\<not> sublist ''Patches'' ''Circle glyph type(s) found.''"
    by (simp add: sublist_code)
  moreover have "\<not> sublist ''MultiLine'' ''Circle glyph type(s) found.''"
    by (simp add: sublist_code)
  moreover have "sublist ''Circle'' ''Circle glyph type(s) found.''"
    by (simp add: sublist_code)
  moreover have "PolyDrawTool_check_compatible_renderers
     (t\<lparr>renderers := [\<lparr>data_source = s1, glyph = Patches_glyph\<rparr>,
                      \<lparr>data_source = s2, glyph = Circle_glyph\<rparr>,
                      \<lparr>data_source = s3, glyph = MultiLine_glyph\<rparr>]\<rparr>)
     = Inr [\<lparr>code = INCOMPATIBLE_POLY_DRAW_RENDERER, message = ''Circle glyph type(s) found.''\<rparr>]"
    by (simp add: PolyDrawTool_check_compatible_renderers_def report_incompatible_def error_Some
        glyph_defs)
  ultimately show ?thesis by blast
qed

section \<open>The vertex renderer\<close>

text \<open>
  With a vertex renderer set, both vertex checks return a diagnostic naming the type of
  its glyph exactly when the glyph is not an \<^verbatim>\<open>XYGlyph\<close>. The poly-draw tool's check
  returns no diagnostic when no vertex renderer is set.
\<close>

lemma vertex_renderer_set:
  "poly_draw_tool.vertex_renderer d = Some vr \<Longrightarrow>
     PolyDrawTool_check_compatible_vertex_renderer d =
       (if isinstance (glyph vr) XYGlyph then Inr []
        else Inr [\<lparr>code = INCOMPATIBLE_POLY_EDIT_VERTEX_RENDERER,
                   message = ''glyph type '' @ type_name (glyph vr) @ '' found.''\<rparr>])"
  "poly_edit_tool.vertex_renderer e = Some vr \<Longrightarrow>
     PolyEditTool_check_compatible_vertex_renderer e =
       (if isinstance (glyph vr) XYGlyph then Inr []
        else Inr [\<lparr>code = INCOMPATIBLE_POLY_EDIT_VERTEX_RENDERER,
                   message = ''glyph type '' @ type_name (glyph vr) @ '' found.''\<rparr>])"
  by (simp_all add: PolyEditTool_check_compatible_vertex_renderer_def
      PolyDrawTool_check_compatible_vertex_renderer_def error_Some error_None)

lemma poly_draw_vertex_renderer_unset:
  "poly_draw_tool.vertex_renderer d = None \<Longrightarrow>
     PolyDrawTool_check_compatible_vertex_renderer d = Inr []"
  by (simp add: PolyDrawTool_check_compatible_vertex_renderer_def error_None)

lemma vertex_renderer_patches:
  "PolyEditTool_check_compatible_vertex_renderer
     (e\<lparr>poly_edit_tool.vertex_renderer := Some \<lparr>data_source = s, glyph = Patches_glyph\<rparr>\<rparr>) =
     Inr [\<lparr>code = INCOMPATIBLE_POLY_EDIT_VERTEX_RENDERER, message = ''glyph type Patches found.''\<rparr>]"
  "PolyDrawTool_check_compatible_vertex_renderer
     (d\<lparr>poly_draw_tool.vertex_renderer := Some \<lparr>data_source = s, glyph = Patches_glyph\<rparr>\<rparr>) =
     Inr [\<lparr>code = INCOMPATIBLE_POLY_EDIT_VERTEX_RENDERER, message = ''glyph type Patches found.''\<rparr>]"
  by (simp_all add: PolyEditTool_check_compatible_vertex_renderer_def
      PolyDrawTool_check_compatible_vertex_renderer_def error_Some glyph_defs)

text \<open>
  Claim C4. The claim asks of both tools with a \<^verbatim>\<open>vertex_renderer\<close> field that the
  vertex check return no diagnostic when the field is unset. The poly-draw tool's check
  does; the poly-edit tool's check reads \<^verbatim>\<open>self.vertex_renderer.glyph\<close> without the
  test for \<^verbatim>\<open>None\<close> and raises \<^verbatim>\<open>AttributeError\<close> on every poly-edit tool with no
  vertex renderer.
\<close>

theorem poly_edit_unset_vertex_renderer_raises:
  "PolyEditTool_check_compatible_vertex_renderer (e\<lparr>poly_edit_tool.vertex_renderer := None\<rparr>)
     = Inl AttributeError \<and>
   PolyDrawTool_check_compatible_vertex_renderer (d\<lparr>poly_draw_tool.vertex_renderer := None\<rparr>)
     = Inr []"
  by (simp add: PolyEditTool_check_compatible_vertex_renderer_def
      PolyDrawTool_check_compatible_vertex_renderer_def error_raise error_None)

section \<open>Which checks always return\<close>

lemma checks_return:
  "\<exists>ds. BoxEditTool_check_compatible_renderers b = Inr ds"
  "\<exists>ds. PointDrawTool_check_compatible_renderers p = Inr ds"
  "\<exists>ds. PolyDrawTool_check_compatible_renderers d = Inr ds"
  "\<exists>ds. PolyDrawTool_check_compatible_vertex_renderer d = Inr ds"
  "\<exists>ds. FreehandDrawTool_check_compatible_renderers f = Inr ds"
  "\<exists>ds. PolyEditTool_check_compatible_renderers e = Inr ds"
  by (simp_all add: renderer_checks PolyDrawTool_check_compatible_vertex_renderer_def
      report_incompatible_def error_def Let_def split: option.split)

text \<open>
  Claim C5. The claim asks that every compatibility check return a result on every
  tool, also with \<^verbatim>\<open>vertex_renderer\<close> unset. Six of the seven checks do
  (\<open>checks_return\<close>); the poly-edit tool's vertex check does not: on the tool that
  \<^verbatim>\<open>PolyEditTool()\<close> builds it raises \<^verbatim>\<open>AttributeError\<close>.
\<close>

theorem poly_edit_vertex_check_not_total:
  "PolyEditTool_check_compatible_vertex_renderer PolyEditTool_default = Inl AttributeError \<and>
   \<not> (\<forall>e. \<exists>ds. PolyEditTool_check_compatible_vertex_renderer e = Inr ds)"
proof -
  have r: "PolyEditTool_check_compatible_vertex_renderer PolyEditTool_default = Inl AttributeError"
    by (simp add: PolyEditTool_check_compatible_vertex_renderer_def PolyEditTool_default_def
        error_raise)
  have "\<not> (\<forall>e. \<exists>ds. PolyEditTool_check_compatible_vertex_renderer e = Inr ds)"
  proof
    assume "\<forall>e. \<exists>ds. PolyEditTool_check_compatible_vertex_renderer e = Inr ds"
    then have "\<exists>ds. PolyEditTool_check_compatible_vertex_renderer PolyEditTool_default = Inr ds" ..
    with r show False by simp
  qed
  with r show ?thesis ..
qed

section \<open>The message lists the offenders in order\<close>

lemma check_offenders:
  assumes "\<exists>r\<in>set rs. \<not> ok (glyph r)"
  shows "error c (report_incompatible (collect_incompatible ok rs [])) =
     Inr [\<lparr>code = c, message = join '', '' (offenders ok rs) @ '' glyph type(s) found.''\<rparr>]"
proof -
  from assms have "\<not> list_all (\<lambda>r. ok (glyph r)) rs"
    by (simp add: list_all_iff)
  then show ?thesis
    by (rule check_some_incompatible)
qed

text \<open>
  Claim C6. For each of the five edit tools: when some renderer of \<^verbatim>\<open>renderers\<close> carries
  a glyph outside the tool's allowed classes, \<^verbatim>\<open>_check_compatible_renderers\<close> returns
  a single diagnostic, and its message is the type names of all offending glyphs, in
  the order of the input and with repetitions kept, joined by \<^verbatim>\<open>, \<close> and followed by
  \<^verbatim>\<open> glyph type(s) found.\<close>
\<close>

theorem incompatible_renderers_message:
  "((\<exists>r\<in>set (renderers b). \<not> isinstance (glyph r) Rect) \<longrightarrow>
      BoxEditTool_check_compatible_renderers b =
        Inr [\<lparr>code = INCOMPATIBLE_BOX_EDIT_RENDERER,
              message = join '', '' (offenders (\<lambda>g. isinstance g Rect) (renderers b))
                        @ '' glyph type(s) found.''\<rparr>]) \<and>
   ((\<exists>r\<in>set (renderers p). \<not> isinstance (glyph r) XYGlyph) \<longrightarrow>
      PointDrawTool_check_compatible_renderers p =
        Inr [\<lparr>code = INCOMPATIBLE_POINT_DRAW_RENDERER,
              message = join '', '' (offenders (\<lambda>g. isinstance g XYGlyph) (renderers p))
                        @ '' glyph type(s) found.''\<rparr>]) \<and>
   ((\<exists>r\<in>set (renderers d). \<not> (isinstance (glyph r) MultiLine \<or> isinstance (glyph r) Patches)) \<longrightarrow>
      PolyDrawTool_check_compatible_renderers d =
        Inr [\<lparr>code = INCOMPATIBLE_POLY_DRAW_RENDERER,
              message = join '', ''
                          (offenders (\<lambda>g. isinstance g MultiLine \<or> isinstance g Patches) (renderers d))
                        @ '' glyph type(s) found.''\<rparr>]) \<and>
   ((\<exists>r\<in>set (renderers f). \<not> (isinstance (glyph r) MultiLine \<or> isinstance (glyph r) Patches)) \<longrightarrow>
      FreehandDrawTool_check_compatible_renderers f =
        Inr [\<lparr>code = INCOMPATIBLE_POLY_DRAW_RENDERER,
              message = join '', ''
                          (offenders (\<lambda>g. isinstance g MultiLine \<or> isinstance g Patches) (renderers f))
                        @ '' glyph type(s) found.''\<rparr>]) \<and>
   ((\<exists>r\<in>set (renderers e). \<not> (isinstance (glyph r) MultiLine \<or> isinstance (glyph r) Patches)) \<longrightarrow>
      PolyEditTool_check_compatible_renderers e =
        Inr [\<lparr>code = INCOMPATIBLE_POLY_EDIT_RENDERER,
              message = join '', ''
                          (offenders (\<lambda>g. isinstance g MultiLine \<or> isinstance g Patches) (renderers e))
                        @ '' glyph type(s) found.''\<rparr>])"
  unfolding renderer_checks
  by (intro conjI impI check_offenders)

theorem incompatible_renderers_message_witness:
  "(\<exists>r\<in>set (renderers (BoxEditTool_default\<lparr>renderers :=
        [\<lparr>data_source = 0, glyph = Patches_glyph\<rparr>, \<lparr>data_source = 1, glyph = Rect_glyph\<rparr>,
         \<lparr>data_source = 2, glyph = Circle_glyph\<rparr>, \<lparr>data_source = 0, glyph = Patches_glyph\<rparr>]\<rparr>)).
      \<not> isinstance (glyph r) Rect) \<and>
   BoxEditTool_check_compatible_renderers (BoxEditTool_default\<lparr>renderers :=
        [\<lparr>data_source = 0, glyph = Patches_glyph\<rparr>, \<lparr>data_source = 1, glyph = Rect_glyph\<rparr>,
         \<lparr>data_source = 2, glyph = Circle_glyph\<rparr>, \<lparr>data_source = 0, glyph = Patches_glyph\<rparr>]\<rparr>) =
     Inr [\<lparr>code = INCOMPATIBLE_BOX_EDIT_RENDERER,
           message = ''Patches, Circle, Patches glyph type(s) found.''\<rparr>] \<and>
   (\<exists>r\<in>set (renderers (PointDrawTool_default\<lparr>renderers :=
        [\<lparr>data_source = 0, glyph = MultiLine_glyph\<rparr>, \<lparr>data_source = 1, glyph = Circle_glyph\<rparr>,
         \<lparr>data_source = 2, glyph = Patches_glyph\<rparr>]\<rparr>)).
      \<not> isinstance (glyph r) XYGlyph) \<and>
   PointDrawTool_check_compatible_renderers (PointDrawTool_default\<lparr>renderers :=
        [\<lparr>data_source = 0, glyph = MultiLine_glyph\<rparr>, \<lparr>data_source = 1, glyph = Circle_glyph\<rparr>,
         \<lparr>data_source = 2, glyph = Patches_glyph\<rparr>]\<rparr>) =
     Inr [\<lparr>code = INCOMPATIBLE_POINT_DRAW_RENDERER,
           message = ''MultiLine, Patches glyph type(s) found.''\<rparr>] \<and>
   (\<exists>r\<in>set (renderers (PolyDrawTool_default\<lparr>renderers :=
        [\<lparr>data_source = 0, glyph = Rect_glyph\<rparr>, \<lparr>data_source = 1, glyph = Circle_glyph\<rparr>]\<rparr>)).
      \<not> (isinstance (glyph r) MultiLine \<or> isinstance (glyph r) Patches)) \<and>
   PolyDrawTool_check_compatible_renderers (PolyDrawTool_default\<lparr>renderers :=
        [\<lparr>data_source = 0, glyph = Rect_glyph\<rparr>, \<lparr>data_source = 1, glyph = Circle_glyph\<rparr>]\<rparr>) =
     Inr [\<lparr>code = INCOMPATIBLE_POLY_DRAW_RENDERER,
           message = ''Rect, Circle glyph type(s) found.''\<rparr>] \<and>
   (\<exists>r\<in>set (renderers (FreehandDrawTool_default\<lparr>renderers :=
        [\<lparr>data_source = 0, glyph = Rect_glyph\<rparr>]\<rparr>)).
      \<not> (isinstance (glyph r) MultiLine \<or> isinstance (glyph r) Patches)) \<and>
   FreehandDrawTool_check_compatible_renderers (FreehandDrawTool_default\<lparr>renderers :=
        [\<lparr>data_source = 0, glyph = Rect_glyph\<rparr>]\<rparr>) =
     Inr [\<lparr>code = INCOMPATIBLE_POLY_DRAW_RENDERER,
           message = ''Rect glyph type(s) found.''\<rparr>] \<and>
   (\<exists>r\<in>set (renderers (PolyEditTool_default\<lparr>renderers :=
        [\<lparr>data_source = 0, glyph = Circle_glyph\<rparr>, \<lparr>data_source = 1, glyph = Patches_glyph\<rparr>,
         \<lparr>data_source = 0, glyph = Circle_glyph\<rparr>]\<rparr>)).
      \<not> (isinstance (glyph r) MultiLine \<or> isinstance (glyph r) Patches)) \<and>
   PolyEditTool_check_compatible_renderers (PolyEditTool_default\<lparr>renderers :=
        [\<lparr>data_source = 0, glyph = Circle_glyph\<rparr>, \<lparr>data_source = 1, glyph = Patches_glyph\<rparr>,
         \<lparr>data_source = 0, glyph = Circle_glyph\<rparr>]\<rparr>) =
     Inr [\<lparr>code = INCOMPATIBLE_POLY_EDIT_RENDERER,
           message = ''Circle, Circle glyph type(s) found.''\<rparr>]"
proof -
  let ?b = "BoxEditTool_default\<lparr>renderers :=
        [\<lparr>data_source = 0, glyph = Patches_glyph\<rparr>, \<lparr>data_source = 1, glyph = Rect_glyph\<rparr>,
         \<lparr>data_source = 2, glyph = Circle_glyph\<rparr>, \<lparr>data_source = 0, glyph = Patches_glyph\<rparr>]\<rparr>"
  let ?p = "PointDrawTool_default\<lparr>renderers :=
        [\<lparr>data_source = 0, glyph = MultiLine_glyph\<rparr>, \<lparr>data_source = 1, glyph = Circle_glyph\<rparr>,
         \<lparr>data_source = 2, glyph = Patches_glyph\<rparr>]\<rparr>"
  let ?d = "PolyDrawTool_default\<lparr>renderers :=
        [\<lparr>data_source = 0, glyph = Rect_glyph\<rparr>, \<lparr>data_source = 1, glyph = Circle_glyph\<rparr>]\<rparr>"
  let ?f = "FreehandDrawTool_default\<lparr>renderers := [\<lparr>data_source = 0, glyph = Rect_glyph\<rparr>]\<rparr>"
  let ?e = "PolyEditTool_default\<lparr>renderers :=
        [\<lparr>data_source = 0, glyph = Circle_glyph\<rparr>, \<lparr>data_source = 1, glyph = Patches_glyph\<rparr>,
         \<lparr>data_source = 0, glyph = Circle_glyph\<rparr>]\<rparr>"
  have hb: "\<exists>r\<in>set (renderers ?b). \<not> isinstance (glyph r) Rect"
    by (simp add: glyph_defs)
  have hp: "\<exists>r\<in>set (renderers ?p). \<not> isinstance (glyph r) XYGlyph"
    by (simp add: glyph_defs)
  have hd: "\<exists>r\<in>set (renderers ?d). \<not> (isinstance (glyph r) MultiLine \<or> isinstance (glyph r) Patches)"
    by (simp add: glyph_defs)
  have hf: "\<exists>r\<in>set (renderers ?f). \<not> (isinstance (glyph r) MultiLine \<or> isinstance (glyph r) Patches)"
    by (simp add: glyph_defs)
  have he: "\<exists>r\<in>set (renderers ?e). \<not> (isinstance (glyph r) MultiLine \<or> isinstance (glyph r) Patches)"
    by (simp add: glyph_defs)
  have mb: "join '', '' (offenders (\<lambda>g. isinstance g Rect) (renderers ?b)) = ''Patches, Circle, Patches''"
    by (simp add: offenders_def glyph_defs)
  have mp: "join '', '' (offenders (\<lambda>g. isinstance g XYGlyph) (renderers ?p)) = ''MultiLine, Patches''"
    by (simp add: offenders_def glyph_defs)
  have md: "join '', '' (offenders (\<lambda>g. isinstance g MultiLine \<or> isinstance g Patches) (renderers ?d))
      = ''Rect, Circle''"
    by (simp add: offenders_def glyph_defs)
  have mf: "join '', '' (offenders (\<lambda>g. isinstance g MultiLine \<or> isinstance g Patches) (renderers ?f))
      = ''Rect''"
    by (simp add: offenders_def glyph_defs)
  have me: "join '', '' (offenders (\<lambda>g. isinstance g MultiLine \<or> isinstance g Patches) (renderers ?e))
      = ''Circle, Circle''"
    by (simp add: offenders_def glyph_defs)
  from incompatible_renderers_message [of ?b ?p ?d ?f ?e] hb hp hd hf he
  have "BoxEditTool_check_compatible_renderers ?b =
        Inr [\<lparr>code = INCOMPATIBLE_BOX_EDIT_RENDERER,
              message = join '', '' (offenders (\<lambda>g. isinstance g Rect) (renderers ?b))
                        @ '' glyph type(s) found.''\<rparr>]"
    and "PointDrawTool_check_compatible_renderers ?p =
        Inr [\<lparr>code = INCOMPATIBLE_POINT_DRAW_RENDERER,
              message = join '', '' (offenders (\<lambda>g. isinstance g XYGlyph) (renderers ?p))
                        @ '' glyph type(s) found.''\<rparr>]"
    and "PolyDrawTool_check_compatible_renderers ?d =
        Inr [\<lparr>code = INCOMPATIBLE_POLY_DRAW_RENDERER,
              message = join '', ''
                          (offenders (\<lambda>g. isinstance g MultiLine \<or> isinstance g Patches) (renderers ?d))
                        @ '' glyph type(s) found.''\<rparr>]"
    and "FreehandDrawTool_check_compatible_renderers ?f =
        Inr [\<lparr>code = INCOMPATIBLE_POLY_DRAW_RENDERER,
              message = join '', ''
                          (offenders (\<lambda>g. isinstance g MultiLine \<or> isinstance g Patches) (renderers ?f))
                        @ '' glyph type(s) found.''\<rparr>]"
    and "PolyEditTool_check_compatible_renderers ?e =
        Inr [\<lparr>code = INCOMPATIBLE_POLY_EDIT_RENDERER,
              message = join '', ''
                          (offenders (\<lambda>g. isinstance g MultiLine \<or> isinstance g Patches) (renderers ?e))
                        @ '' glyph type(s) found.''\<rparr>]"
    by blast+
  then have "BoxEditTool_check_compatible_renderers ?b =
        Inr [\<lparr>code = INCOMPATIBLE_BOX_EDIT_RENDERER,
              message = ''Patches, Circle, Patches glyph type(s) found.''\<rparr>]"
    and "PointDrawTool_check_compatible_renderers ?p =
        Inr [\<lparr>code = INCOMPATIBLE_POINT_DRAW_RENDERER,
              message = ''MultiLine, Patches glyph type(s) found.''\<rparr>]"
    and "PolyDrawTool_check_compatible_renderers ?d =
        Inr [\<lparr>code = INCOMPATIBLE_POLY_DRAW_RENDERER,
              message = ''Rect, Circle glyph type(s) found.''\<rparr>]"
    and "FreehandDrawTool_check_compatible_renderers ?f =
        Inr [\<lparr>code = INCOMPATIBLE_POLY_DRAW_RENDERER,
              message = ''Rect glyph type(s) found.''\<rparr>]"
    and "PolyEditTool_check_compatible_renderers ?e =
        Inr [\<lparr>code = INCOMPATIBLE_POLY_EDIT_RENDERER,
              message = ''Circle, Circle glyph type(s) found.''\<rparr>]"
    unfolding mb mp md mf me by simp_all
  with hb hp hd hf he show ?thesis by blast
qed

section \<open>No renderers\<close>

text \<open>
  Claim C7. For each of the five edit tools: when \<^verbatim>\<open>renderers\<close> is the empty list,
  \<^verbatim>\<open>_check_compatible_renderers\<close> returns no diagnostic.
\<close>

theorem empty_renderers_no_diagnostic:
  "(renderers b = [] \<longrightarrow> BoxEditTool_check_compatible_renderers b = Inr []) \<and>
   (renderers p = [] \<longrightarrow> PointDrawTool_check_compatible_renderers p = Inr []) \<and>
   (renderers d = [] \<longrightarrow> PolyDrawTool_check_compatible_renderers d = Inr []) \<and>
   (renderers f = [] \<longrightarrow> FreehandDrawTool_check_compatible_renderers f = Inr []) \<and>
   (renderers e = [] \<longrightarrow> PolyEditTool_check_compatible_renderers e = Inr [])"
  by (simp add: renderer_checks report_incompatible_Nil error_None)

theorem empty_renderers_no_diagnostic_witness:
  "renderers BoxEditTool_default = [] \<and>
   BoxEditTool_check_compatible_renderers BoxEditTool_default = Inr [] \<and>
   renderers PointDrawTool_default = [] \<and>
   PointDrawTool_check_compatible_renderers PointDrawTool_default = Inr [] \<and>
   renderers PolyDrawTool_default = [] \<and>
   PolyDrawTool_check_compatible_renderers PolyDrawTool_default = Inr [] \<and>
   renderers FreehandDrawTool_default = [] \<and>
   FreehandDrawTool_check_compatible_renderers FreehandDrawTool_default = Inr [] \<and>
   renderers PolyEditTool_default = [] \<and>
   PolyEditTool_check_compatible_renderers PolyEditTool_default = Inr []"
proof -
  have hb: "renderers BoxEditTool_default = []"
    and hp: "renderers PointDrawTool_default = []"
    and hd: "renderers PolyDrawTool_default = []"
    and hf: "renderers FreehandDrawTool_default = []"
    and he: "renderers PolyEditTool_default = []"
    by (simp_all add: tool_defaults)
  from hb hp hd hf he
    empty_renderers_no_diagnostic [of BoxEditTool_default PointDrawTool_default
      PolyDrawTool_default FreehandDrawTool_default PolyEditTool_default]
  show ?thesis by blast
qed

section \<open>Calling a check twice\<close>

text \<open>
  An append to a list object that was in the store is a change \<open>same_objects\<close> sees.
\<close>

lemma list_append_is_seen:
  assumes "a < length (list_objs s)"
  shows "\<exists>s'. list_append a r s = Some s' \<and> \<not> same_objects s s'"
proof -
  have "(list_objs s)[a := list_objs s ! a @ [r]] \<noteq> list_objs s"
  proof
    assume "(list_objs s)[a := list_objs s ! a @ [r]] = list_objs s"
    then have "(list_objs s)[a := list_objs s ! a @ [r]] ! a = list_objs s ! a"
      by simp
    with assms show False by simp
  qed
  with assms show ?thesis
    by (simp add: list_append_def get_list_def same_objects_def)
qed

lemma get_list_new:
  "a < length L \<Longrightarrow> get_list (s\<lparr>list_objs := L @ ys\<rparr>) a = Some (L ! a)"
  by (simp add: get_list_def nth_append)

lemma get_list_last:
  "get_list (s\<lparr>list_objs := L @ [ys]\<rparr>) (length L) = Some ys"
  by (simp add: get_list_def)

lemma list_append_last:
  "list_append (length L) r (s\<lparr>list_objs := L @ [ys]\<rparr>) = Some (s\<lparr>list_objs := L @ [ys @ [r]]\<rparr>)"
  by (simp add: list_append_def get_list_last)

lemma get_renderer_lists [simp]:
  "get_renderer (s\<lparr>list_objs := L\<rparr>) a = get_renderer s a"
  by (simp add: get_renderer_def)

lemma get_tool_lists [simp]:
  "get_tool (s\<lparr>list_objs := L\<rparr>) a = get_tool s a"
  by (simp add: get_tool_def)

lemma for_renderers_collects:
  assumes src: "src < length L"
    and refs: "list_all (\<lambda>a. a < length (renderer_objs s)) (L ! src)"
  shows "for_renderers ok src (length L) i (s\<lparr>list_objs := L @ [acc]\<rparr>) =
     Some (s\<lparr>list_objs :=
        L @ [acc @ filter (\<lambda>a. \<not> ok (glyph (renderer_objs s ! a))) (drop i (L ! src))]\<rparr>)"
proof (induction "length (L ! src) - i" arbitrary: i acc)
  case 0
  then have "\<not> i < length (L ! src)" by simp
  then show ?case
    by (subst for_renderers.simps) (simp add: get_list_new [OF src])
next
  case (Suc n)
  then have i: "i < length (L ! src)" and n: "n = length (L ! src) - Suc i"
    by simp_all
  from refs i have r: "L ! src ! i < length (renderer_objs s)"
    by (simp add: list_all_length)
  have d: "drop i (L ! src) = (L ! src ! i) # drop (Suc i) (L ! src)"
    using i by (simp add: Cons_nth_drop_Suc)
  show ?case
  proof (cases "ok (glyph (renderer_objs s ! (L ! src ! i)))")
    case True
    then show ?thesis
      by (subst for_renderers.simps)
        (simp add: get_list_new [OF src] i r get_renderer_def d Suc.hyps(1) [OF n])
  next
    case False
    then show ?thesis
      by (subst for_renderers.simps)
        (simp add: get_list_new [OF src] i r get_renderer_def d list_append_last
          Suc.hyps(1) [OF n])
  qed
qed

lemma read_renderers_in_store:
  "list_all (\<lambda>a. a < length (renderer_objs s)) as \<Longrightarrow>
   read_renderers s as = Some (map (\<lambda>a. renderer_objs s ! a) as)"
  by (induction as) (simp_all add: get_renderer_def)

lemma tool_in_storeD:
  assumes "tool_in_store s self"
  shows "self < length (tool_objs s)"
    and "renderers_ref (tool_objs s ! self) < length (list_objs s)"
    and "list_all (\<lambda>a. a < length (renderer_objs s))
           (list_objs s ! renderers_ref (tool_objs s ! self))"
    and "\<And>a. vertex_renderer_ref (tool_objs s ! self) = Some a \<Longrightarrow> a < length (renderer_objs s)"
  using assms
  by (auto simp add: tool_in_store_def get_tool_def get_list_def
      split: if_splits option.splits)

lemma tool_in_store_grows:
  assumes "tool_in_store s self"
  shows "tool_in_store (s\<lparr>list_objs := list_objs s @ ys\<rparr>) self"
proof -
  note t = tool_in_storeD [OF assms]
  from t(1,2,3) have "get_tool (s\<lparr>list_objs := list_objs s @ ys\<rparr>) self = Some (tool_objs s ! self)"
    and "get_list (s\<lparr>list_objs := list_objs s @ ys\<rparr>) (renderers_ref (tool_objs s ! self)) =
           Some (list_objs s ! renderers_ref (tool_objs s ! self))"
    by (simp_all add: get_tool_def get_list_new)
  with t(3,4) show ?thesis
    by (simp add: tool_in_store_def split: option.split)
qed

lemma renderers_in_store_grows:
  assumes "tool_in_store s self"
  shows "renderers_in_store (s\<lparr>list_objs := list_objs s @ ys\<rparr>) self = renderers_in_store s self"
  using tool_in_storeD(2) [OF assms] by (simp add: renderers_in_store_def nth_append)

lemma check_renderers_run_result:
  assumes "tool_in_store s self"
  shows "check_renderers_run ok self s =
     Some (report_incompatible (collect_incompatible ok (renderers_in_store s self) []),
           s\<lparr>list_objs := list_objs s @
              [filter (\<lambda>a. \<not> ok (glyph (renderer_objs s ! a)))
                 (list_objs s ! renderers_ref (tool_objs s ! self))]\<rparr>)"
proof -
  note t = tool_in_storeD [OF assms]
  let ?xs = "list_objs s ! renderers_ref (tool_objs s ! self)"
  let ?found = "filter (\<lambda>a. \<not> ok (glyph (renderer_objs s ! a))) ?xs"
  let ?s2 = "s\<lparr>list_objs := list_objs s @ [?found]\<rparr>"
  have loop: "for_renderers ok (renderers_ref (tool_objs s ! self)) (length (list_objs s)) 0
      (s\<lparr>list_objs := list_objs s @ [[]]\<rparr>) = Some ?s2"
    using for_renderers_collects [OF t(2) t(3), of ok 0 "[]"] by simp
  from t(3) have "list_all (\<lambda>a. a < length (renderer_objs ?s2)) ?found"
    by (simp add: list_all_iff)
  then have rd: "read_renderers ?s2 ?found = Some (map (\<lambda>a. renderer_objs s ! a) ?found)"
    by (simp add: read_renderers_in_store)
  have m: "map (\<lambda>a. renderer_objs s ! a) ?found =
      collect_incompatible ok (renderers_in_store s self) []"
    by (simp add: collect_incompatible_filter renderers_in_store_def filter_map comp_def)
  from t(1) have gt: "get_tool s self = Some (tool_objs s ! self)"
    by (simp add: get_tool_def)
  show ?thesis
    by (simp add: check_renderers_run_def new_list_def gt loop get_list_last rd m)
qed

lemma same_objects_grows:
  "same_objects s (s\<lparr>list_objs := list_objs s @ ys @ zs\<rparr>)"
  by (simp add: same_objects_def)

lemma twice_check_renderers:
  assumes t: "tool_in_store s self"
    and c: "\<And>self s. check self s = error_run c (check_renderers_run ok self s)"
  shows "\<exists>s'. twice check self s =
           Some (error c (report_incompatible (collect_incompatible ok (renderers_in_store s self) [])),
                 error c (report_incompatible (collect_incompatible ok (renderers_in_store s self) [])),
                 s') \<and>
         same_objects s s'"
proof -
  let ?found = "filter (\<lambda>a. \<not> ok (glyph (renderer_objs s ! a)))
                 (list_objs s ! renderers_ref (tool_objs s ! self))"
  let ?s1 = "s\<lparr>list_objs := list_objs s @ [?found]\<rparr>"
  let ?r = "error c (report_incompatible (collect_incompatible ok (renderers_in_store s self) []))"
  have first: "check self s = Some (?r, ?s1)"
    by (simp add: c error_run_def check_renderers_run_result [OF t])
  have t1: "tool_in_store ?s1 self"
    by (rule tool_in_store_grows [OF t])
  have same: "renderers_in_store ?s1 self = renderers_in_store s self"
    by (rule renderers_in_store_grows [OF t])
  obtain s2 where second: "check self ?s1 = Some (?r, s2)"
    and s2: "s2 = s\<lparr>list_objs := list_objs s @ [?found] @
        [filter (\<lambda>a. \<not> ok (glyph (renderer_objs ?s1 ! a)))
           (list_objs ?s1 ! renderers_ref (tool_objs ?s1 ! self))]\<rparr>"
    by (simp add: c error_run_def check_renderers_run_result [OF t1] same)
  have "same_objects s s2"
    unfolding s2 by (rule same_objects_grows)
  with first second show ?thesis
    by (simp add: twice_def)
qed

lemma PolyDrawTool_vertex_run_result:
  assumes "tool_in_store s self"
  shows "PolyDrawTool_check_compatible_vertex_renderer_run self s =
     Some (PolyDrawTool_check_compatible_vertex_renderer
             (d\<lparr>poly_draw_tool.vertex_renderer := vertex_renderer_in_store s self\<rparr>), s)"
proof (cases "vertex_renderer_ref (tool_objs s ! self)")
  case None
  with tool_in_storeD(1) [OF assms] show ?thesis
    by (simp add: PolyDrawTool_check_compatible_vertex_renderer_run_def
        PolyDrawTool_check_compatible_vertex_renderer_def vertex_renderer_in_store_def
        get_tool_def error_run_def)
next
  case (Some a)
  with tool_in_storeD(1,4) [OF assms] show ?thesis
    by (simp add: PolyDrawTool_check_compatible_vertex_renderer_run_def
        PolyDrawTool_check_compatible_vertex_renderer_def vertex_renderer_in_store_def
        get_tool_def get_renderer_def error_run_def Let_def)
qed

lemma PolyEditTool_vertex_run_result:
  assumes "tool_in_store s self"
  shows "PolyEditTool_check_compatible_vertex_renderer_run self s =
     Some (PolyEditTool_check_compatible_vertex_renderer
             (e\<lparr>poly_edit_tool.vertex_renderer := vertex_renderer_in_store s self\<rparr>), s)"
proof (cases "vertex_renderer_ref (tool_objs s ! self)")
  case None
  with tool_in_storeD(1) [OF assms] show ?thesis
    by (simp add: PolyEditTool_check_compatible_vertex_renderer_run_def
        PolyEditTool_check_compatible_vertex_renderer_def vertex_renderer_in_store_def
        get_tool_def error_run_def)
next
  case (Some a)
  with tool_in_storeD(1,4) [OF assms] show ?thesis
    by (simp add: PolyEditTool_check_compatible_vertex_renderer_run_def
        PolyEditTool_check_compatible_vertex_renderer_def vertex_renderer_in_store_def
        get_tool_def get_renderer_def error_run_def Let_def)
qed

text \<open>
  Claim C8. Each of the seven compatibility checks, run as a program on the store and
  called twice on the same tool with nothing done in between, returns both times: with
  the same result (the same diagnostics, or the same exception), which is the value of
  the check as a function of the tool's renderers (of its vertex renderer, for the two
  vertex checks); and every tool, list and renderer of the store is after the two calls
  what it was before them. The one object a check changes is the list it has made
  itself.
\<close>

theorem checks_deterministic:
  assumes "tool_in_store s self"
  shows
  "(\<exists>s'. twice BoxEditTool_check_compatible_renderers_run self s =
      Some (BoxEditTool_check_compatible_renderers (b\<lparr>renderers := renderers_in_store s self\<rparr>),
            BoxEditTool_check_compatible_renderers (b\<lparr>renderers := renderers_in_store s self\<rparr>), s') \<and>
      same_objects s s') \<and>
   (\<exists>s'. twice PointDrawTool_check_compatible_renderers_run self s =
      Some (PointDrawTool_check_compatible_renderers (p\<lparr>renderers := renderers_in_store s self\<rparr>),
            PointDrawTool_check_compatible_renderers (p\<lparr>renderers := renderers_in_store s self\<rparr>), s') \<and>
      same_objects s s') \<and>
   (\<exists>s'. twice PolyDrawTool_check_compatible_renderers_run self s =
      Some (PolyDrawTool_check_compatible_renderers (d\<lparr>renderers := renderers_in_store s self\<rparr>),
            PolyDrawTool_check_compatible_renderers (d\<lparr>renderers := renderers_in_store s self\<rparr>), s') \<and>
      same_objects s s') \<and>
   (\<exists>s'. twice PolyDrawTool_check_compatible_vertex_renderer_run self s =
      Some (PolyDrawTool_check_compatible_vertex_renderer
              (d\<lparr>poly_draw_tool.vertex_renderer := vertex_renderer_in_store s self\<rparr>),
            PolyDrawTool_check_compatible_vertex_renderer
              (d\<lparr>poly_draw_tool.vertex_renderer := vertex_renderer_in_store s self\<rparr>), s') \<and>
      same_objects s s') \<and>
   (\<exists>s'. twice FreehandDrawTool_check_compatible_renderers_run self s =
      Some (FreehandDrawTool_check_compatible_renderers (f\<lparr>renderers := renderers_in_store s self\<rparr>),
            FreehandDrawTool_check_compatible_renderers (f\<lparr>renderers := renderers_in_store s self\<rparr>), s') \<and>
      same_objects s s') \<and>
   (\<exists>s'. twice PolyEditTool_check_compatible_renderers_run self s =
      Some (PolyEditTool_check_compatible_renderers (e\<lparr>renderers := renderers_in_store s self\<rparr>),
            PolyEditTool_check_compatible_renderers (e\<lparr>renderers := renderers_in_store s self\<rparr>), s') \<and>
      same_objects s s') \<and>
   (\<exists>s'. twice PolyEditTool_check_compatible_vertex_renderer_run self s =
      Some (PolyEditTool_check_compatible_vertex_renderer
              (e\<lparr>poly_edit_tool.vertex_renderer := vertex_renderer_in_store s self\<rparr>),
            PolyEditTool_check_compatible_vertex_renderer
              (e\<lparr>poly_edit_tool.vertex_renderer := vertex_renderer_in_store s self\<rparr>), s') \<and>
      same_objects s s')"
proof (intro conjI)
  show "\<exists>s'. twice BoxEditTool_check_compatible_renderers_run self s =
      Some (BoxEditTool_check_compatible_renderers (b\<lparr>renderers := renderers_in_store s self\<rparr>),
            BoxEditTool_check_compatible_renderers (b\<lparr>renderers := renderers_in_store s self\<rparr>), s') \<and>
      same_objects s s'"
    using twice_check_renderers [OF assms BoxEditTool_check_compatible_renderers_run_def]
    by (simp add: BoxEditTool_check_compatible_renderers_def)
next
  show "\<exists>s'. twice PointDrawTool_check_compatible_renderers_run self s =
      Some (PointDrawTool_check_compatible_renderers (p\<lparr>renderers := renderers_in_store s self\<rparr>),
            PointDrawTool_check_compatible_renderers (p\<lparr>renderers := renderers_in_store s self\<rparr>), s') \<and>
      same_objects s s'"
    using twice_check_renderers [OF assms PointDrawTool_check_compatible_renderers_run_def]
    by (simp add: PointDrawTool_check_compatible_renderers_def)
next
  show "\<exists>s'. twice PolyDrawTool_check_compatible_renderers_run self s =
      Some (PolyDrawTool_check_compatible_renderers (d\<lparr>renderers := renderers_in_store s self\<rparr>),
            PolyDrawTool_check_compatible_renderers (d\<lparr>renderers := renderers_in_store s self\<rparr>), s') \<and>
      same_objects s s'"
    using twice_check_renderers [OF assms PolyDrawTool_check_compatible_renderers_run_def]
    by (simp add: PolyDrawTool_check_compatible_renderers_def)
next
  show "\<exists>s'. twice FreehandDrawTool_check_compatible_renderers_run self s =
      Some (FreehandDrawTool_check_compatible_renderers (f\<lparr>renderers := renderers_in_store s self\<rparr>),
            FreehandDrawTool_check_compatible_renderers (f\<lparr>renderers := renderers_in_store s self\<rparr>), s') \<and>
      same_objects s s'"
    using twice_check_renderers [OF assms FreehandDrawTool_check_compatible_renderers_run_def]
    by (simp add: FreehandDrawTool_check_compatible_renderers_def)
next
  show "\<exists>s'. twice PolyEditTool_check_compatible_renderers_run self s =
      Some (PolyEditTool_check_compatible_renderers (e\<lparr>renderers := renderers_in_store s self\<rparr>),
            PolyEditTool_check_compatible_renderers (e\<lparr>renderers := renderers_in_store s self\<rparr>), s') \<and>
      same_objects s s'"
    using twice_check_renderers [OF assms PolyEditTool_check_compatible_renderers_run_def]
    by (simp add: PolyEditTool_check_compatible_renderers_def)
next
  show "\<exists>s'. twice PolyDrawTool_check_compatible_vertex_renderer_run self s =
      Some (PolyDrawTool_check_compatible_vertex_renderer
              (d\<lparr>poly_draw_tool.vertex_renderer := vertex_renderer_in_store s self\<rparr>),
            PolyDrawTool_check_compatible_vertex_renderer
              (d\<lparr>poly_draw_tool.vertex_renderer := vertex_renderer_in_store s self\<rparr>), s') \<and>
      same_objects s s'"
    using PolyDrawTool_vertex_run_result [OF assms, of d]
    by (simp add: twice_def same_objects_def)
next
  show "\<exists>s'. twice PolyEditTool_check_compatible_vertex_renderer_run self s =
      Some (PolyEditTool_check_compatible_vertex_renderer
              (e\<lparr>poly_edit_tool.vertex_renderer := vertex_renderer_in_store s self\<rparr>),
            PolyEditTool_check_compatible_vertex_renderer
              (e\<lparr>poly_edit_tool.vertex_renderer := vertex_renderer_in_store s self\<rparr>), s') \<and>
      same_objects s s'"
    using PolyEditTool_vertex_run_result [OF assms, of e]
    by (simp add: twice_def same_objects_def)
qed

theorem checks_deterministic_witness:
  "tool_in_store example_store 0 \<and>
   (\<exists>s'. twice BoxEditTool_check_compatible_renderers_run 0 example_store =
      Some (Inr [\<lparr>code = INCOMPATIBLE_BOX_EDIT_RENDERER,
                  message = ''Circle, Patches, Circle glyph type(s) found.''\<rparr>],
            Inr [\<lparr>code = INCOMPATIBLE_BOX_EDIT_RENDERER,
                  message = ''Circle, Patches, Circle glyph type(s) found.''\<rparr>], s') \<and>
      same_objects example_store s') \<and>
   (\<exists>s'. twice PointDrawTool_check_compatible_renderers_run 0 example_store =
      Some (Inr [\<lparr>code = INCOMPATIBLE_POINT_DRAW_RENDERER,
                  message = ''Patches glyph type(s) found.''\<rparr>],
            Inr [\<lparr>code = INCOMPATIBLE_POINT_DRAW_RENDERER,
                  message = ''Patches glyph type(s) found.''\<rparr>], s') \<and>
      same_objects example_store s') \<and>
   (\<exists>s'. twice PolyDrawTool_check_compatible_renderers_run 0 example_store =
      Some (Inr [\<lparr>code = INCOMPATIBLE_POLY_DRAW_RENDERER,
                  message = ''Circle, Circle glyph type(s) found.''\<rparr>],
            Inr [\<lparr>code = INCOMPATIBLE_POLY_DRAW_RENDERER,
                  message = ''Circle, Circle glyph type(s) found.''\<rparr>], s') \<and>
      same_objects example_store s') \<and>
   (\<exists>s'. twice PolyDrawTool_check_compatible_vertex_renderer_run 0 example_store =
      Some (Inr [\<lparr>code = INCOMPATIBLE_POLY_EDIT_VERTEX_RENDERER,
                  message = ''glyph type Patches found.''\<rparr>],
            Inr [\<lparr>code = INCOMPATIBLE_POLY_EDIT_VERTEX_RENDERER,
                  message = ''glyph type Patches found.''\<rparr>], s') \<and>
      same_objects example_store s') \<and>
   (\<exists>s'. twice FreehandDrawTool_check_compatible_renderers_run 0 example_store =
      Some (Inr [\<lparr>code = INCOMPATIBLE_POLY_DRAW_RENDERER,
                  message = ''Circle, Circle glyph type(s) found.''\<rparr>],
            Inr [\<lparr>code = INCOMPATIBLE_POLY_DRAW_RENDERER,
                  message = ''Circle, Circle glyph type(s) found.''\<rparr>], s') \<and>
      same_objects example_store s') \<and>
   (\<exists>s'. twice PolyEditTool_check_compatible_renderers_run 0 example_store =
      Some (Inr [\<lparr>code = INCOMPATIBLE_POLY_EDIT_RENDERER,
                  message = ''Circle, Circle glyph type(s) found.''\<rparr>],
            Inr [\<lparr>code = INCOMPATIBLE_POLY_EDIT_RENDERER,
                  message = ''Circle, Circle glyph type(s) found.''\<rparr>], s') \<and>
      same_objects example_store s') \<and>
   (\<exists>s'. twice PolyEditTool_check_compatible_vertex_renderer_run 0 example_store =
      Some (Inr [\<lparr>code = INCOMPATIBLE_POLY_EDIT_VERTEX_RENDERER,
                  message = ''glyph type Patches found.''\<rparr>],
            Inr [\<lparr>code = INCOMPATIBLE_POLY_EDIT_VERTEX_RENDERER,
                  message = ''glyph type Patches found.''\<rparr>], s') \<and>
      same_objects example_store s')"
proof -
  let ?rs = "[\<lparr>data_source = 0, glyph = Circle_glyph\<rparr>, \<lparr>data_source = 1, glyph = Patches_glyph\<rparr>,
              \<lparr>data_source = 0, glyph = Circle_glyph\<rparr>]"
  let ?vr = "Some \<lparr>data_source = 1, glyph = Patches_glyph\<rparr>"
  have h: "tool_in_store example_store 0"
    by (simp add: tool_in_store_def example_store_def get_tool_def get_list_def)
  have rs: "renderers_in_store example_store 0 = ?rs"
    by (simp add: renderers_in_store_def example_store_def)
  have vr: "vertex_renderer_in_store example_store 0 = ?vr"
    by (simp add: vertex_renderer_in_store_def example_store_def)
  have vb: "BoxEditTool_check_compatible_renderers (BoxEditTool_default\<lparr>renderers := ?rs\<rparr>) =
      Inr [\<lparr>code = INCOMPATIBLE_BOX_EDIT_RENDERER,
            message = ''Circle, Patches, Circle glyph type(s) found.''\<rparr>]"
    by (simp add: BoxEditTool_check_compatible_renderers_def report_incompatible_def error_Some
        glyph_defs)
  have vp: "PointDrawTool_check_compatible_renderers (PointDrawTool_default\<lparr>renderers := ?rs\<rparr>) =
      Inr [\<lparr>code = INCOMPATIBLE_POINT_DRAW_RENDERER,
            message = ''Patches glyph type(s) found.''\<rparr>]"
    by (simp add: PointDrawTool_check_compatible_renderers_def report_incompatible_def error_Some
        glyph_defs)
  have vd: "PolyDrawTool_check_compatible_renderers (PolyDrawTool_default\<lparr>renderers := ?rs\<rparr>) =
      Inr [\<lparr>code = INCOMPATIBLE_POLY_DRAW_RENDERER,
            message = ''Circle, Circle glyph type(s) found.''\<rparr>]"
    by (simp add: PolyDrawTool_check_compatible_renderers_def report_incompatible_def error_Some
        glyph_defs)
  have vf: "FreehandDrawTool_check_compatible_renderers (FreehandDrawTool_default\<lparr>renderers := ?rs\<rparr>) =
      Inr [\<lparr>code = INCOMPATIBLE_POLY_DRAW_RENDERER,
            message = ''Circle, Circle glyph type(s) found.''\<rparr>]"
    by (simp add: FreehandDrawTool_check_compatible_renderers_def report_incompatible_def error_Some
        glyph_defs)
  have ve: "PolyEditTool_check_compatible_renderers (PolyEditTool_default\<lparr>renderers := ?rs\<rparr>) =
      Inr [\<lparr>code = INCOMPATIBLE_POLY_EDIT_RENDERER,
            message = ''Circle, Circle glyph type(s) found.''\<rparr>]"
    by (simp add: PolyEditTool_check_compatible_renderers_def report_incompatible_def error_Some
        glyph_defs)
  have vdv: "PolyDrawTool_check_compatible_vertex_renderer
        (PolyDrawTool_default\<lparr>poly_draw_tool.vertex_renderer := ?vr\<rparr>) =
      Inr [\<lparr>code = INCOMPATIBLE_POLY_EDIT_VERTEX_RENDERER,
            message = ''glyph type Patches found.''\<rparr>]"
    by (simp add: PolyDrawTool_check_compatible_vertex_renderer_def error_Some glyph_defs)
  have vev: "PolyEditTool_check_compatible_vertex_renderer
        (PolyEditTool_default\<lparr>poly_edit_tool.vertex_renderer := ?vr\<rparr>) =
      Inr [\<lparr>code = INCOMPATIBLE_POLY_EDIT_VERTEX_RENDERER,
            message = ''glyph type Patches found.''\<rparr>]"
    by (simp add: PolyEditTool_check_compatible_vertex_renderer_def error_Some glyph_defs)
  from checks_deterministic [OF h, where b = BoxEditTool_default and p = PointDrawTool_default
      and d = PolyDrawTool_default and f = FreehandDrawTool_default and e = PolyEditTool_default]
  show ?thesis
    unfolding rs vr vb vp vd vf ve vdv vev using h by (intro conjI) simp_all
qed

section \<open>The freehand-draw check is the poly-draw check\<close>

lemma check_no_diagnostic_iff:
  "(error c (report_incompatible (collect_incompatible ok rs [])) = Inr []) =
     list_all (\<lambda>r. ok (glyph r)) rs"
proof (cases "list_all (\<lambda>r. ok (glyph r)) rs")
  case True
  then show ?thesis by (simp add: check_all_compatible)
next
  case False
  then show ?thesis by (simp add: check_some_incompatible)
qed

text \<open>
  Claim C9. On the same list of renderers the freehand-draw tool's
  \<^verbatim>\<open>_check_compatible_renderers\<close> and the poly-draw tool's return the same result, error
  code included. Each returns no diagnostic exactly when every glyph is a \<^verbatim>\<open>MultiLine\<close>
  or a \<^verbatim>\<open>Patches\<close>, and otherwise one diagnostic under the poly-draw error code with
  the same message for the same offenders.
\<close>

theorem freehand_draw_is_poly_draw:
  "(renderers f = renderers d \<longrightarrow>
      FreehandDrawTool_check_compatible_renderers f = PolyDrawTool_check_compatible_renderers d) \<and>
   ((FreehandDrawTool_check_compatible_renderers f = Inr []) =
      list_all (\<lambda>r. isinstance (glyph r) MultiLine \<or> isinstance (glyph r) Patches) (renderers f)) \<and>
   ((PolyDrawTool_check_compatible_renderers d = Inr []) =
      list_all (\<lambda>r. isinstance (glyph r) MultiLine \<or> isinstance (glyph r) Patches) (renderers d)) \<and>
   (FreehandDrawTool_check_compatible_renderers f = Inr [] \<or>
    FreehandDrawTool_check_compatible_renderers f =
      Inr [\<lparr>code = INCOMPATIBLE_POLY_DRAW_RENDERER,
            message = join '', ''
                        (offenders (\<lambda>g. isinstance g MultiLine \<or> isinstance g Patches) (renderers f))
                      @ '' glyph type(s) found.''\<rparr>])"
proof (intro conjI impI)
  assume "renderers f = renderers d"
  then show "FreehandDrawTool_check_compatible_renderers f = PolyDrawTool_check_compatible_renderers d"
    by (simp add: FreehandDrawTool_check_compatible_renderers_def
        PolyDrawTool_check_compatible_renderers_def)
next
  show "(FreehandDrawTool_check_compatible_renderers f = Inr []) =
      list_all (\<lambda>r. isinstance (glyph r) MultiLine \<or> isinstance (glyph r) Patches) (renderers f)"
    unfolding FreehandDrawTool_check_compatible_renderers_def by (rule check_no_diagnostic_iff)
next
  show "(PolyDrawTool_check_compatible_renderers d = Inr []) =
      list_all (\<lambda>r. isinstance (glyph r) MultiLine \<or> isinstance (glyph r) Patches) (renderers d)"
    unfolding PolyDrawTool_check_compatible_renderers_def by (rule check_no_diagnostic_iff)
next
  show "FreehandDrawTool_check_compatible_renderers f = Inr [] \<or>
    FreehandDrawTool_check_compatible_renderers f =
      Inr [\<lparr>code = INCOMPATIBLE_POLY_DRAW_RENDERER,
            message = join '', ''
                        (offenders (\<lambda>g. isinstance g MultiLine \<or> isinstance g Patches) (renderers f))
                      @ '' glyph type(s) found.''\<rparr>]"
    unfolding FreehandDrawTool_check_compatible_renderers_def
    using check_all_compatible check_some_incompatible by blast
qed

theorem freehand_draw_is_poly_draw_witness:
  "renderers (FreehandDrawTool_default\<lparr>renderers :=
       [\<lparr>data_source = 0, glyph = Patches_glyph\<rparr>, \<lparr>data_source = 1, glyph = Rect_glyph\<rparr>]\<rparr>) =
   renderers (PolyDrawTool_default\<lparr>renderers :=
       [\<lparr>data_source = 0, glyph = Patches_glyph\<rparr>, \<lparr>data_source = 1, glyph = Rect_glyph\<rparr>]\<rparr>) \<and>
   FreehandDrawTool_check_compatible_renderers (FreehandDrawTool_default\<lparr>renderers :=
       [\<lparr>data_source = 0, glyph = Patches_glyph\<rparr>, \<lparr>data_source = 1, glyph = Rect_glyph\<rparr>]\<rparr>) =
   PolyDrawTool_check_compatible_renderers (PolyDrawTool_default\<lparr>renderers :=
       [\<lparr>data_source = 0, glyph = Patches_glyph\<rparr>, \<lparr>data_source = 1, glyph = Rect_glyph\<rparr>]\<rparr>) \<and>
   PolyDrawTool_check_compatible_renderers (PolyDrawTool_default\<lparr>renderers :=
       [\<lparr>data_source = 0, glyph = Patches_glyph\<rparr>, \<lparr>data_source = 1, glyph = Rect_glyph\<rparr>]\<rparr>) =
     Inr [\<lparr>code = INCOMPATIBLE_POLY_DRAW_RENDERER, message = ''Rect glyph type(s) found.''\<rparr>]"
proof -
  let ?rs = "[\<lparr>data_source = 0, glyph = Patches_glyph\<rparr>, \<lparr>data_source = 1, glyph = Rect_glyph\<rparr>]"
  let ?f = "FreehandDrawTool_default\<lparr>renderers := ?rs\<rparr>"
  let ?d = "PolyDrawTool_default\<lparr>renderers := ?rs\<rparr>"
  have h: "renderers ?f = renderers ?d" by simp
  have v: "PolyDrawTool_check_compatible_renderers ?d =
     Inr [\<lparr>code = INCOMPATIBLE_POLY_DRAW_RENDERER, message = ''Rect glyph type(s) found.''\<rparr>]"
    by (simp add: PolyDrawTool_check_compatible_renderers_def report_incompatible_def error_Some
        glyph_defs)
  from h freehand_draw_is_poly_draw [of ?f ?d]
  have "FreehandDrawTool_check_compatible_renderers ?f = PolyDrawTool_check_compatible_renderers ?d"
    by blast
  with h v show ?thesis by blast
qed

section \<open>The checks read the glyphs only\<close>

lemma report_reads_glyphs:
  "report_incompatible rs =
     (if map glyph rs \<noteq> [] then
        Inr (Some (join '', '' (map type_name (map glyph rs)) @ '' glyph type(s) found.''))
      else Inr None)"
  by (simp add: report_incompatible_def comp_def)

lemma collect_reads_glyphs:
  "map glyph (collect_incompatible ok rs []) = filter (\<lambda>g. \<not> ok g) (map glyph rs)"
  by (simp add: collect_incompatible_filter filter_map comp_def)

lemma check_reads_glyphs:
  assumes "map glyph rs1 = map glyph rs2"
  shows "error c (report_incompatible (collect_incompatible ok rs1 [])) =
         error c (report_incompatible (collect_incompatible ok rs2 []))"
proof -
  from assms have "map glyph (collect_incompatible ok rs1 []) = map glyph (collect_incompatible ok rs2 [])"
    by (simp add: collect_reads_glyphs)
  then have "report_incompatible (collect_incompatible ok rs1 []) =
             report_incompatible (collect_incompatible ok rs2 [])"
    by (simp only: report_reads_glyphs)
  then show ?thesis by simp
qed

text \<open>
  Claim C10. Two tools of the same kind whose \<^verbatim>\<open>renderers\<close> carry the same glyphs,
  position by position, get the same result from \<^verbatim>\<open>_check_compatible_renderers\<close>; two
  tools of the same kind that both have no vertex renderer, or have vertex renderers
  with the same glyph, get the same result from \<^verbatim>\<open>_check_compatible_vertex_renderer\<close>.
  Nothing else of the tools or of the renderers matters.
\<close>

theorem checks_read_glyphs_only:
  "(map glyph (renderers b1) = map glyph (renderers b2) \<longrightarrow>
      BoxEditTool_check_compatible_renderers b1 = BoxEditTool_check_compatible_renderers b2) \<and>
   (map glyph (renderers p1) = map glyph (renderers p2) \<longrightarrow>
      PointDrawTool_check_compatible_renderers p1 = PointDrawTool_check_compatible_renderers p2) \<and>
   (map glyph (renderers d1) = map glyph (renderers d2) \<longrightarrow>
      PolyDrawTool_check_compatible_renderers d1 = PolyDrawTool_check_compatible_renderers d2) \<and>
   (map glyph (renderers f1) = map glyph (renderers f2) \<longrightarrow>
      FreehandDrawTool_check_compatible_renderers f1 = FreehandDrawTool_check_compatible_renderers f2) \<and>
   (map glyph (renderers e1) = map glyph (renderers e2) \<longrightarrow>
      PolyEditTool_check_compatible_renderers e1 = PolyEditTool_check_compatible_renderers e2) \<and>
   (map_option glyph (poly_draw_tool.vertex_renderer d1) =
      map_option glyph (poly_draw_tool.vertex_renderer d2) \<longrightarrow>
      PolyDrawTool_check_compatible_vertex_renderer d1 =
      PolyDrawTool_check_compatible_vertex_renderer d2) \<and>
   (map_option glyph (poly_edit_tool.vertex_renderer e1) =
      map_option glyph (poly_edit_tool.vertex_renderer e2) \<longrightarrow>
      PolyEditTool_check_compatible_vertex_renderer e1 =
      PolyEditTool_check_compatible_vertex_renderer e2)"
proof (intro conjI impI)
  assume "map_option glyph (poly_draw_tool.vertex_renderer d1) =
      map_option glyph (poly_draw_tool.vertex_renderer d2)"
  then show "PolyDrawTool_check_compatible_vertex_renderer d1 =
      PolyDrawTool_check_compatible_vertex_renderer d2"
    by (cases "poly_draw_tool.vertex_renderer d1"; cases "poly_draw_tool.vertex_renderer d2")
      (simp_all add: PolyDrawTool_check_compatible_vertex_renderer_def)
next
  assume "map_option glyph (poly_edit_tool.vertex_renderer e1) =
      map_option glyph (poly_edit_tool.vertex_renderer e2)"
  then show "PolyEditTool_check_compatible_vertex_renderer e1 =
      PolyEditTool_check_compatible_vertex_renderer e2"
    by (cases "poly_edit_tool.vertex_renderer e1"; cases "poly_edit_tool.vertex_renderer e2")
      (simp_all add: PolyEditTool_check_compatible_vertex_renderer_def)
qed (unfold renderer_checks, (erule check_reads_glyphs)+)

theorem checks_read_glyphs_only_witness:
  "map glyph (renderers (BoxEditTool_default\<lparr>renderers := [\<lparr>data_source = 0, glyph = Circle_glyph\<rparr>]\<rparr>)) =
   map glyph (renderers (BoxEditTool_default\<lparr>renderers := [\<lparr>data_source = 7, glyph = Circle_glyph\<rparr>],
       empty_value := Some (IntValue 1), dimensions := Width, box_edit_tool.num_objects := 3\<rparr>)) \<and>
   BoxEditTool_check_compatible_renderers
     (BoxEditTool_default\<lparr>renderers := [\<lparr>data_source = 0, glyph = Circle_glyph\<rparr>]\<rparr>) =
   BoxEditTool_check_compatible_renderers
     (BoxEditTool_default\<lparr>renderers := [\<lparr>data_source = 7, glyph = Circle_glyph\<rparr>],
       empty_value := Some (IntValue 1), dimensions := Width, box_edit_tool.num_objects := 3\<rparr>) \<and>
   map glyph (renderers (PointDrawTool_default\<lparr>renderers := [\<lparr>data_source = 0, glyph = Patches_glyph\<rparr>]\<rparr>)) =
   map glyph (renderers (PointDrawTool_default\<lparr>renderers := [\<lparr>data_source = 7, glyph = Patches_glyph\<rparr>],
       add := False, point_draw_tool.drag := False, point_draw_tool.num_objects := 3\<rparr>)) \<and>
   PointDrawTool_check_compatible_renderers
     (PointDrawTool_default\<lparr>renderers := [\<lparr>data_source = 0, glyph = Patches_glyph\<rparr>]\<rparr>) =
   PointDrawTool_check_compatible_renderers
     (PointDrawTool_default\<lparr>renderers := [\<lparr>data_source = 7, glyph = Patches_glyph\<rparr>],
       add := False, point_draw_tool.drag := False, point_draw_tool.num_objects := 3\<rparr>) \<and>
   map glyph (renderers (PolyDrawTool_default\<lparr>renderers := [\<lparr>data_source = 0, glyph = Circle_glyph\<rparr>]\<rparr>)) =
   map glyph (renderers (PolyDrawTool_default\<lparr>renderers := [\<lparr>data_source = 7, glyph = Circle_glyph\<rparr>],
       poly_draw_tool.drag := False, poly_draw_tool.num_objects := 3\<rparr>)) \<and>
   PolyDrawTool_check_compatible_renderers
     (PolyDrawTool_default\<lparr>renderers := [\<lparr>data_source = 0, glyph = Circle_glyph\<rparr>]\<rparr>) =
   PolyDrawTool_check_compatible_renderers
     (PolyDrawTool_default\<lparr>renderers := [\<lparr>data_source = 7, glyph = Circle_glyph\<rparr>],
       poly_draw_tool.drag := False, poly_draw_tool.num_objects := 3\<rparr>) \<and>
   map glyph (renderers (FreehandDrawTool_default\<lparr>renderers := [\<lparr>data_source = 0, glyph = Circle_glyph\<rparr>]\<rparr>)) =
   map glyph (renderers (FreehandDrawTool_default\<lparr>renderers := [\<lparr>data_source = 7, glyph = Circle_glyph\<rparr>],
       custom_tooltip := Some ''draw'', freehand_draw_tool.num_objects := 3\<rparr>)) \<and>
   FreehandDrawTool_check_compatible_renderers
     (FreehandDrawTool_default\<lparr>renderers := [\<lparr>data_source = 0, glyph = Circle_glyph\<rparr>]\<rparr>) =
   FreehandDrawTool_check_compatible_renderers
     (FreehandDrawTool_default\<lparr>renderers := [\<lparr>data_source = 7, glyph = Circle_glyph\<rparr>],
       custom_tooltip := Some ''draw'', freehand_draw_tool.num_objects := 3\<rparr>) \<and>
   map glyph (renderers (PolyEditTool_default\<lparr>renderers := [\<lparr>data_source = 0, glyph = Circle_glyph\<rparr>]\<rparr>)) =
   map glyph (renderers (PolyEditTool_default\<lparr>renderers := [\<lparr>data_source = 7, glyph = Circle_glyph\<rparr>],
       empty_value := Some (BoolValue True)\<rparr>)) \<and>
   PolyEditTool_check_compatible_renderers
     (PolyEditTool_default\<lparr>renderers := [\<lparr>data_source = 0, glyph = Circle_glyph\<rparr>]\<rparr>) =
   PolyEditTool_check_compatible_renderers
     (PolyEditTool_default\<lparr>renderers := [\<lparr>data_source = 7, glyph = Circle_glyph\<rparr>],
       empty_value := Some (BoolValue True)\<rparr>) \<and>
   map_option glyph (poly_draw_tool.vertex_renderer (PolyDrawTool_default
       \<lparr>poly_draw_tool.vertex_renderer := Some \<lparr>data_source = 0, glyph = Patches_glyph\<rparr>\<rparr>)) =
   map_option glyph (poly_draw_tool.vertex_renderer (PolyDrawTool_default
       \<lparr>renderers := [\<lparr>data_source = 1, glyph = Rect_glyph\<rparr>], poly_draw_tool.num_objects := 3,
        poly_draw_tool.vertex_renderer := Some \<lparr>data_source = 7, glyph = Patches_glyph\<rparr>\<rparr>)) \<and>
   PolyDrawTool_check_compatible_vertex_renderer (PolyDrawTool_default
       \<lparr>poly_draw_tool.vertex_renderer := Some \<lparr>data_source = 0, glyph = Patches_glyph\<rparr>\<rparr>) =
   PolyDrawTool_check_compatible_vertex_renderer (PolyDrawTool_default
       \<lparr>renderers := [\<lparr>data_source = 1, glyph = Rect_glyph\<rparr>], poly_draw_tool.num_objects := 3,
        poly_draw_tool.vertex_renderer := Some \<lparr>data_source = 7, glyph = Patches_glyph\<rparr>\<rparr>) \<and>
   map_option glyph (poly_edit_tool.vertex_renderer (PolyEditTool_default
       \<lparr>poly_edit_tool.vertex_renderer := Some \<lparr>data_source = 0, glyph = Patches_glyph\<rparr>\<rparr>)) =
   map_option glyph (poly_edit_tool.vertex_renderer (PolyEditTool_default
       \<lparr>renderers := [\<lparr>data_source = 1, glyph = Rect_glyph\<rparr>],
        poly_edit_tool.vertex_renderer := Some \<lparr>data_source = 7, glyph = Patches_glyph\<rparr>\<rparr>)) \<and>
   PolyEditTool_check_compatible_vertex_renderer (PolyEditTool_default
       \<lparr>poly_edit_tool.vertex_renderer := Some \<lparr>data_source = 0, glyph = Patches_glyph\<rparr>\<rparr>) =
   PolyEditTool_check_compatible_vertex_renderer (PolyEditTool_default
       \<lparr>renderers := [\<lparr>data_source = 1, glyph = Rect_glyph\<rparr>],
        poly_edit_tool.vertex_renderer := Some \<lparr>data_source = 7, glyph = Patches_glyph\<rparr>\<rparr>)"
proof -
  let ?b1 = "BoxEditTool_default\<lparr>renderers := [\<lparr>data_source = 0, glyph = Circle_glyph\<rparr>]\<rparr>"
  let ?b2 = "BoxEditTool_default\<lparr>renderers := [\<lparr>data_source = 7, glyph = Circle_glyph\<rparr>],
       empty_value := Some (IntValue 1), dimensions := Width, box_edit_tool.num_objects := 3\<rparr>"
  let ?p1 = "PointDrawTool_default\<lparr>renderers := [\<lparr>data_source = 0, glyph = Patches_glyph\<rparr>]\<rparr>"
  let ?p2 = "PointDrawTool_default\<lparr>renderers := [\<lparr>data_source = 7, glyph = Patches_glyph\<rparr>],
       add := False, point_draw_tool.drag := False, point_draw_tool.num_objects := 3\<rparr>"
  let ?d1 = "PolyDrawTool_default\<lparr>renderers := [\<lparr>data_source = 0, glyph = Circle_glyph\<rparr>]\<rparr>"
  let ?d2 = "PolyDrawTool_default\<lparr>renderers := [\<lparr>data_source = 7, glyph = Circle_glyph\<rparr>],
       poly_draw_tool.drag := False, poly_draw_tool.num_objects := 3\<rparr>"
  let ?f1 = "FreehandDrawTool_default\<lparr>renderers := [\<lparr>data_source = 0, glyph = Circle_glyph\<rparr>]\<rparr>"
  let ?f2 = "FreehandDrawTool_default\<lparr>renderers := [\<lparr>data_source = 7, glyph = Circle_glyph\<rparr>],
       custom_tooltip := Some ''draw'', freehand_draw_tool.num_objects := 3\<rparr>"
  let ?e1 = "PolyEditTool_default\<lparr>renderers := [\<lparr>data_source = 0, glyph = Circle_glyph\<rparr>]\<rparr>"
  let ?e2 = "PolyEditTool_default\<lparr>renderers := [\<lparr>data_source = 7, glyph = Circle_glyph\<rparr>],
       empty_value := Some (BoolValue True)\<rparr>"
  let ?d3 = "PolyDrawTool_default
       \<lparr>poly_draw_tool.vertex_renderer := Some \<lparr>data_source = 0, glyph = Patches_glyph\<rparr>\<rparr>"
  let ?d4 = "PolyDrawTool_default
       \<lparr>renderers := [\<lparr>data_source = 1, glyph = Rect_glyph\<rparr>], poly_draw_tool.num_objects := 3,
        poly_draw_tool.vertex_renderer := Some \<lparr>data_source = 7, glyph = Patches_glyph\<rparr>\<rparr>"
  let ?e3 = "PolyEditTool_default
       \<lparr>poly_edit_tool.vertex_renderer := Some \<lparr>data_source = 0, glyph = Patches_glyph\<rparr>\<rparr>"
  let ?e4 = "PolyEditTool_default
       \<lparr>renderers := [\<lparr>data_source = 1, glyph = Rect_glyph\<rparr>],
        poly_edit_tool.vertex_renderer := Some \<lparr>data_source = 7, glyph = Patches_glyph\<rparr>\<rparr>"
  have hb: "map glyph (renderers ?b1) = map glyph (renderers ?b2)" by simp
  have hp: "map glyph (renderers ?p1) = map glyph (renderers ?p2)" by simp
  have hd: "map glyph (renderers ?d1) = map glyph (renderers ?d2)" by simp
  have hf: "map glyph (renderers ?f1) = map glyph (renderers ?f2)" by simp
  have he: "map glyph (renderers ?e1) = map glyph (renderers ?e2)" by simp
  have hdv: "map_option glyph (poly_draw_tool.vertex_renderer ?d3) =
             map_option glyph (poly_draw_tool.vertex_renderer ?d4)" by simp
  have hev: "map_option glyph (poly_edit_tool.vertex_renderer ?e3) =
             map_option glyph (poly_edit_tool.vertex_renderer ?e4)" by simp
  note w1 = checks_read_glyphs_only [of ?b1 ?b2 ?p1 ?p2 ?d1 ?d2 ?f1 ?f2 ?e1 ?e2]
  note w2 = checks_read_glyphs_only [of ?b1 ?b2 ?p1 ?p2 ?d3 ?d4 ?f1 ?f2 ?e3 ?e4]
  from w1 hb have cb: "BoxEditTool_check_compatible_renderers ?b1 =
      BoxEditTool_check_compatible_renderers ?b2" by blast
  from w1 hp have cp: "PointDrawTool_check_compatible_renderers ?p1 =
      PointDrawTool_check_compatible_renderers ?p2" by blast
  from w1 hd have cd: "PolyDrawTool_check_compatible_renderers ?d1 =
      PolyDrawTool_check_compatible_renderers ?d2" by blast
  from w1 hf have cf: "FreehandDrawTool_check_compatible_renderers ?f1 =
      FreehandDrawTool_check_compatible_renderers ?f2" by blast
  from w1 he have ce: "PolyEditTool_check_compatible_renderers ?e1 =
      PolyEditTool_check_compatible_renderers ?e2" by blast
  from w2 hdv have cdv: "PolyDrawTool_check_compatible_vertex_renderer ?d3 =
      PolyDrawTool_check_compatible_vertex_renderer ?d4" by blast
  from w2 hev have cev: "PolyEditTool_check_compatible_vertex_renderer ?e3 =
      PolyEditTool_check_compatible_vertex_renderer ?e4" by blast
  from hb cb hp cp hd cd hf cf he ce hdv cdv hev cev show ?thesis
    by (intro conjI)
qed

end
